theory Spec2Isabelle
  imports Complex_Main "HOL-Library.AList"
begin

section \<open>FireLink Lite: proximity fan-out and call signaling\<close>

text \<open>
  The development embeds three server modules of the repository:
  \<^item> \<^verbatim>\<open>server/haversine.ts\<close> (and the private copy of the distance helper in the storage
    module): the great-circle distance;
  \<^item> the route module (\<^verbatim>\<open>connectedClients\<close>, \<^verbatim>\<open>sendToClient\<close>, \<^verbatim>\<open>broadcastToAll\<close>,
    \<^verbatim>\<open>notifyAgents\<close>, \<^verbatim>\<open>findClientsWithinRadius\<close>) and the storage query
    \<^verbatim>\<open>getPushSubscriptionsNearLocation\<close>;
  \<^item> \<^verbatim>\<open>server/webrtc.ts\<close>: the class \<^verbatim>\<open>WebRTCSignalingServer\<close>.

  Conventions of the embedding.
  \<^item> A JavaScript \<^verbatim>\<open>number\<close> that the code computes is a \<open>number\<close>: a finite double, given
    by its real value, or NaN. Every arithmetic operation rounds its exact result with the
    rounding function of the environment, and \<^verbatim>\<open>Math.sin\<close>, \<^verbatim>\<open>Math.cos\<close>,
    \<^verbatim>\<open>Math.atan2\<close> and \<^verbatim>\<open>Math.PI\<close> are those of the environment, which is a parameter of
    every function that computes a distance. A coordinate that the code receives is a finite
    double, a \<^typ>\<open>real\<close>; an optional or nullable one is a \<^typ>\<open>real option\<close>.
  \<^item> A JavaScript \<^verbatim>\<open>Map\<close> is an association list in insertion order
    (\<^const>\<open>AList.update\<close> is \<^verbatim>\<open>set\<close>, \<^const>\<open>AList.delete\<close> is \<^verbatim>\<open>delete\<close>,
    \<^const>\<open>map_of\<close> is \<^verbatim>\<open>get\<close>, \<^const>\<open>AList.map_entry\<close> is a mutation of the stored object);
    a \<^verbatim>\<open>Set\<close> is a list in insertion order.
  \<^item> The readiness of a socket (\<^verbatim>\<open>socket.readyState === WebSocket.OPEN\<close>) is a boolean field of
    the connection entry; every \<^verbatim>\<open>socket.send\<close> is appended to a log of the state, as the pair
    of the recipient and the message.
\<close>

section \<open>The model\<close>

subsection \<open>JavaScript numbers\<close>

text \<open>
  A number that the code computes: a finite double, given by its real value, or NaN. The
  infinities are left out: the functions below divide only by 2 and by 180, and their
  arguments are coordinates.
\<close>

datatype number = NaN | Num real

text \<open>
  The arithmetic of the JavaScript engine, a parameter of the model: \<open>rounded\<close> rounds the exact
  result of an operation to a double (IEEE 754 fixes it; round to nearest), and
  \<^verbatim>\<open>Math.sin\<close>, \<^verbatim>\<open>Math.cos\<close>, \<^verbatim>\<open>Math.atan2\<close> on finite arguments and the constant
  \<^verbatim>\<open>Math.PI\<close> are what the engine provides (ECMAScript leaves their accuracy to the
  implementation).
\<close>

record js_math =
  rounded :: "real \<Rightarrow> real"
  Math_sin :: "real \<Rightarrow> real"
  Math_cos :: "real \<Rightarrow> real"
  Math_atan2 :: "real \<Rightarrow> real \<Rightarrow> real"
  Math_PI :: real

text \<open>The four operations on finite doubles: the exact result, rounded.\<close>

definition fadd :: "js_math \<Rightarrow> real \<Rightarrow> real \<Rightarrow> real" where
  "fadd M x y = rounded M (x + y)"

definition fsub :: "js_math \<Rightarrow> real \<Rightarrow> real \<Rightarrow> real" where
  "fsub M x y = rounded M (x - y)"

definition fmul :: "js_math \<Rightarrow> real \<Rightarrow> real \<Rightarrow> real" where
  "fmul M x y = rounded M (x * y)"

definition fdiv :: "js_math \<Rightarrow> real \<Rightarrow> real \<Rightarrow> real" where
  "fdiv M x y = rounded M (x / y)"

text \<open>\<^verbatim>\<open>Math.sqrt\<close>: NaN on a negative argument, the rounded square root otherwise.\<close>

definition Math_sqrt :: "js_math \<Rightarrow> real \<Rightarrow> number" where
  "Math_sqrt M x = (if x < 0 then NaN else Num (rounded M (sqrt x)))"

text \<open>\<^verbatim>\<open>Math.atan2\<close> on numbers: NaN when an argument is NaN.\<close>

definition atan2_num :: "js_math \<Rightarrow> number \<Rightarrow> number \<Rightarrow> number" where
  "atan2_num M y x =
     (case y of
        NaN \<Rightarrow> NaN
      | Num y' \<Rightarrow> (case x of NaN \<Rightarrow> NaN | Num x' \<Rightarrow> Num (Math_atan2 M y' x')))"

text \<open>The product of a finite constant and a number: NaN when the number is NaN.\<close>

definition times_num :: "js_math \<Rightarrow> real \<Rightarrow> number \<Rightarrow> number" where
  "times_num M k n = (case n of NaN \<Rightarrow> NaN | Num x \<Rightarrow> Num (fmul M k x))"

text \<open>
  The comparisons \<^verbatim>\<open><=\<close> and \<^verbatim>\<open>===\<close> on numbers: both are false when an operand is NaN.
\<close>

definition js_le :: "number \<Rightarrow> number \<Rightarrow> bool" where
  "js_le x y =
     (case x of NaN \<Rightarrow> False | Num a \<Rightarrow> (case y of NaN \<Rightarrow> False | Num b \<Rightarrow> a \<le> b))"

definition js_eq :: "number \<Rightarrow> number \<Rightarrow> bool" where
  "js_eq x y =
     (case x of NaN \<Rightarrow> False | Num a \<Rightarrow> (case y of NaN \<Rightarrow> False | Num b \<Rightarrow> a = b))"

subsection \<open>Great-circle distance (\<^verbatim>\<open>haversine.ts\<close>)\<close>

text \<open>\<^verbatim>\<open>toRadians\<close>: \<^verbatim>\<open>degrees * (Math.PI / 180)\<close>.\<close>

definition toRadians :: "js_math \<Rightarrow> real \<Rightarrow> real" where
  "toRadians M degrees = fmul M degrees (fdiv M (Math_PI M) 180)"

text \<open>
  \<^verbatim>\<open>calculateDistance\<close>. There is no clamp on \<^verbatim>\<open>a\<close>: when the computed \<^verbatim>\<open>1 - a\<close> is
  negative, \<^verbatim>\<open>Math.sqrt(1 - a)\<close> is NaN, and so is the result.
\<close>

definition calculateDistance :: "js_math \<Rightarrow> real \<Rightarrow> real \<Rightarrow> real \<Rightarrow> real \<Rightarrow> number" where
  "calculateDistance M lat1 lng1 lat2 lng2 =
     (let R = 6371;
          dLat = toRadians M (fsub M lat2 lat1);
          dLng = toRadians M (fsub M lng2 lng1);
          a = fadd M
                (fmul M (Math_sin M (fdiv M dLat 2)) (Math_sin M (fdiv M dLat 2)))
                (fmul M
                   (fmul M
                      (fmul M (Math_cos M (toRadians M lat1)) (Math_cos M (toRadians M lat2)))
                      (Math_sin M (fdiv M dLng 2)))
                   (Math_sin M (fdiv M dLng 2)));
          c = times_num M 2 (atan2_num M (Math_sqrt M a) (Math_sqrt M (fsub M 1 a)))
      in times_num M R c)"

text \<open>The intermediate value \<^verbatim>\<open>a\<close> of \<^verbatim>\<open>calculateDistance\<close>, named for the proofs.\<close>

definition haversine_a :: "js_math \<Rightarrow> real \<Rightarrow> real \<Rightarrow> real \<Rightarrow> real \<Rightarrow> real" where
  "haversine_a M lat1 lng1 lat2 lng2 =
     (let dLat = toRadians M (fsub M lat2 lat1);
          dLng = toRadians M (fsub M lng2 lng1)
      in fadd M
           (fmul M (Math_sin M (fdiv M dLat 2)) (Math_sin M (fdiv M dLat 2)))
           (fmul M
              (fmul M
                 (fmul M (Math_cos M (toRadians M lat1)) (Math_cos M (toRadians M lat2)))
                 (Math_sin M (fdiv M dLng 2)))
              (Math_sin M (fdiv M dLng 2))))"

text \<open>
  The private \<^verbatim>\<open>calculateDistance\<close> of \<^verbatim>\<open>MemStorage\<close>: the same formula, with the
  conversion to radians written inline as \<^verbatim>\<open>x * Math.PI / 180\<close>, which multiplies first and
  divides afterwards.
\<close>

definition storage_calculateDistance ::
  "js_math \<Rightarrow> real \<Rightarrow> real \<Rightarrow> real \<Rightarrow> real \<Rightarrow> number" where
  "storage_calculateDistance M lat1 lng1 lat2 lng2 =
     (let R = 6371;
          dLat = fdiv M (fmul M (fsub M lat2 lat1) (Math_PI M)) 180;
          dLng = fdiv M (fmul M (fsub M lng2 lng1) (Math_PI M)) 180;
          a = fadd M
                (fmul M (Math_sin M (fdiv M dLat 2)) (Math_sin M (fdiv M dLat 2)))
                (fmul M
                   (fmul M
                      (fmul M (Math_cos M (fdiv M (fmul M lat1 (Math_PI M)) 180))
                              (Math_cos M (fdiv M (fmul M lat2 (Math_PI M)) 180)))
                      (Math_sin M (fdiv M dLng 2)))
                   (Math_sin M (fdiv M dLng 2)));
          c = times_num M 2 (atan2_num M (Math_sqrt M a) (Math_sqrt M (fsub M 1 a)))
      in times_num M R c)"

text \<open>\<^verbatim>\<open>findPointsWithinRadius\<close>: a point is a pair of latitude and longitude with a payload.\<close>

record 'a point =
  point_lat :: real
  point_lng :: real
  point_data :: 'a

definition findPointsWithinRadius ::
  "js_math \<Rightarrow> real \<Rightarrow> real \<Rightarrow> 'a point list \<Rightarrow> real \<Rightarrow> 'a point list" where
  "findPointsWithinRadius M centerLat centerLng points radiusKm =
     filter (\<lambda>p. let distance = calculateDistance M centerLat centerLng (point_lat p) (point_lng p)
                 in js_le distance (Num radiusKm)) points"

subsection \<open>Environments: exact arithmetic and IEEE 754 binary64\<close>

text \<open>
  The mathematical \<open>atan2\<close>, by the quadrant of \<open>(x, y)\<close>, as ECMAScript defines the value that
  \<^verbatim>\<open>Math.atan2\<close> approximates.
\<close>

definition atan2 :: "real \<Rightarrow> real \<Rightarrow> real" where
  "atan2 y x =
     (if 0 < x then arctan (y / x)
      else if x < 0 then (if 0 \<le> y then arctan (y / x) + pi else arctan (y / x) - pi)
      else if 0 < y then pi / 2
      else if y < 0 then - (pi / 2)
      else 0)"

text \<open>Exact arithmetic: nothing is rounded and the functions are the mathematical ones.\<close>

definition exact_math :: js_math where
  "exact_math =
     \<lparr>rounded = (\<lambda>x. x), Math_sin = sin, Math_cos = cos, Math_atan2 = atan2, Math_PI = pi\<rparr>"

text \<open>
  Rounding to the nearest integer, a tie to the even one (the rounding of IEEE 754
  \<^verbatim>\<open>roundTiesToEven\<close>, on significands).
\<close>

definition round_ties_even :: "real \<Rightarrow> int" where
  "round_ties_even x =
     (let n = \<lfloor>x\<rfloor>; r = x - of_int n
      in if r < 1 / 2 then n else if 1 / 2 < r then n + 1 else if even n then n else n + 1)"

text \<open>
  The exponent of the binade of a real, \<open>\<lfloor>log\<^sub>2 \<bar>x\<bar>\<rfloor>\<close>, and not less than -1022, the exponent of
  the subnormal numbers.
\<close>

definition exponent :: "real \<Rightarrow> int" where
  "exponent x = max \<lfloor>log 2 \<bar>x\<bar>\<rfloor> (- 1022)"

text \<open>
  The double that a real is rounded to: the multiple of the unit in the last place of its
  binade (53 bits of significand) that is nearest, a tie to the even significand. Overflow to
  an infinity is left out (coordinates and what is computed from them stay far below
  \<open>2\<^sup>1\<^sup>0\<^sup>2\<^sup>4\<close>), and so is the sign of zero (no operation of the functions below depends on it).
\<close>

definition binary64_round :: "real \<Rightarrow> real" where
  "binary64_round x =
     (let ulp = 2 powi (exponent x - 52) in of_int (round_ties_even (x / ulp)) * ulp)"

text \<open>
  The arithmetic of a JavaScript engine: every operation is rounded to binary64,
  \<^verbatim>\<open>Math.PI\<close> is the double 3.141592653589793, and \<^verbatim>\<open>Math.sin\<close>, \<^verbatim>\<open>Math.cos\<close> and
  \<^verbatim>\<open>Math.atan2\<close> return the double nearest to the mathematical value. (ECMAScript does not
  fix the last bit of these three functions; an engine may return a neighbouring double for
  some arguments.)
\<close>

definition binary64 :: js_math where
  "binary64 =
     \<lparr>rounded = binary64_round,
      Math_sin = (\<lambda>x. binary64_round (sin x)),
      Math_cos = (\<lambda>x. binary64_round (cos x)),
      Math_atan2 = (\<lambda>y x. binary64_round (atan2 y x)),
      Math_PI = 884279719003555 / 2 ^ 48\<rparr>"

text \<open>
  What IEEE 754 and ECMAScript fix about 0 and 1 in every engine: both are doubles, so an
  operation whose exact result is 0 or 1 returns it; \<^verbatim>\<open>Math.sin(0)\<close> is 0 and
  \<^verbatim>\<open>Math.atan2(0, 1)\<close> is 0.
\<close>

definition zero_one_exact :: "js_math \<Rightarrow> bool" where
  "zero_one_exact M \<longleftrightarrow>
     rounded M 0 = 0 \<and> rounded M 1 = 1 \<and> Math_sin M 0 = 0 \<and> Math_atan2 M 0 1 = 0"

subsection \<open>The distance as the specification words it\<close>

text \<open>
  The formula of the specification over the reals, to compare with the code: the deltas in
  radians, \<open>x = sin\<^sup>2 (dLat / 2) + cos lat1 * cos lat2 * sin\<^sup>2 (dLng / 2)\<close>, and
  \<open>2 * atan2 (sqrt x) (sqrt (1 - x)) * 6371\<close>.
\<close>

definition spec_radians :: "real \<Rightarrow> real" where
  "spec_radians degrees = degrees * (pi / 180)"

definition spec_x :: "real \<Rightarrow> real \<Rightarrow> real \<Rightarrow> real \<Rightarrow> real" where
  "spec_x lat1 lng1 lat2 lng2 =
     (let dLat = spec_radians (lat2 - lat1);
          dLng = spec_radians (lng2 - lng1)
      in sin (dLat / 2) * sin (dLat / 2) +
         cos (spec_radians lat1) * cos (spec_radians lat2) *
         sin (dLng / 2) * sin (dLng / 2))"

definition spec_distanceKm :: "real \<Rightarrow> real \<Rightarrow> real \<Rightarrow> real \<Rightarrow> real" where
  "spec_distanceKm lat1 lng1 lat2 lng2 =
     (let x = spec_x lat1 lng1 lat2 lng2
      in 2 * atan2 (sqrt x) (sqrt (1 - x)) * 6371)"

subsection \<open>The client registry and its fan-out (route module)\<close>

text \<open>
  An entry of \<^verbatim>\<open>connectedClients\<close>:
  \<^verbatim>\<open>{ socket: WebSocket; userId?: string; role?: string; lat?: number; lng?: number }\<close>.
\<close>

record client =
  client_socketOpen :: bool
  client_userId :: "string option"
  client_role :: "string option"
  client_lat :: "real option"
  client_lng :: "real option"

text \<open>
  The state of the module: the map \<^verbatim>\<open>connectedClients\<close> and the log of the frames written
  to sockets. The type \<open>'m\<close> of messages is left open (\<^verbatim>\<open>message: any\<close>).
\<close>

record 'm ws_state =
  connectedClients :: "(string \<times> client) list"
  ws_sent :: "(string \<times> 'm) list"

text \<open>
  Truthiness of an optional number in a condition (\<^verbatim>\<open>client.lat && ...\<close>, \<^verbatim>\<open>!sub.lat\<close>):
  \<^verbatim>\<open>undefined\<close>, \<^verbatim>\<open>null\<close> and \<open>0\<close> are falsy.
\<close>

definition truthy_num :: "real option \<Rightarrow> bool" where
  "truthy_num v = (case v of None \<Rightarrow> False | Some x \<Rightarrow> x \<noteq> 0)"

text \<open>Truthiness of an optional string: \<^verbatim>\<open>undefined\<close> and the empty string are falsy.\<close>

definition truthy_str :: "string option \<Rightarrow> bool" where
  "truthy_str v = (case v of None \<Rightarrow> False | Some x \<Rightarrow> x \<noteq> [])"

text \<open>
  A client that a frame can reach: it has an entry and its socket is open. This is the
  condition under which \<^verbatim>\<open>sendToClient\<close> writes.
\<close>

definition ws_live :: "'m ws_state \<Rightarrow> string \<Rightarrow> bool" where
  "ws_live s i =
     (case map_of (connectedClients s) i of None \<Rightarrow> False | Some c \<Rightarrow> client_socketOpen c)"

definition sendToClient :: "string \<Rightarrow> 'm \<Rightarrow> 'm ws_state \<Rightarrow> 'm ws_state" where
  "sendToClient clientId message s =
     (case map_of (connectedClients s) clientId of
        None \<Rightarrow> s
      | Some client \<Rightarrow>
          if client_socketOpen client
          then s\<lparr>ws_sent := ws_sent s @ [(clientId, message)]\<rparr>
          else s)"

text \<open>
  The \<^verbatim>\<open>connection\<close> handler (the new entry, then the welcome frame), and the \<^verbatim>\<open>close\<close>
  and \<^verbatim>\<open>error\<close> handlers, which both delete the entry.
\<close>

definition ws_onConnection :: "string \<Rightarrow> 'm \<Rightarrow> 'm ws_state \<Rightarrow> 'm ws_state" where
  "ws_onConnection clientId welcome s =
     sendToClient clientId welcome
       (s\<lparr>connectedClients :=
            AList.update clientId
              \<lparr>client_socketOpen = True, client_userId = None, client_role = None,
               client_lat = None, client_lng = None\<rparr>
              (connectedClients s)\<rparr>)"

text \<open>
  The transport moves the socket of a client out of the open state (\<^verbatim>\<open>readyState\<close> becomes
  \<^verbatim>\<open>CLOSING\<close> or \<^verbatim>\<open>CLOSED\<close>); the \<^verbatim>\<open>close\<close> event comes later.
\<close>

definition ws_socketNotOpen :: "string \<Rightarrow> 'm ws_state \<Rightarrow> 'm ws_state" where
  "ws_socketNotOpen clientId s =
     s\<lparr>connectedClients :=
          AList.map_entry clientId (\<lambda>c. c\<lparr>client_socketOpen := False\<rparr>) (connectedClients s)\<rparr>"

definition ws_onClose :: "string \<Rightarrow> 'm ws_state \<Rightarrow> 'm ws_state" where
  "ws_onClose clientId s = s\<lparr>connectedClients := AList.delete clientId (connectedClients s)\<rparr>"

text \<open>
  An inbound frame of the registry socket, by its \<^verbatim>\<open>type\<close>: \<^verbatim>\<open>register\<close> (userId, role,
  lat, lng, each of which may be missing), \<^verbatim>\<open>location-update\<close> (lat, lng), \<^verbatim>\<open>ping\<close>, and
  any other type.
\<close>

datatype ws_message =
    Register "string option" "string option" "real option" "real option"
  | LocationUpdate "real option" "real option"
  | Ping
  | OtherType

text \<open>\<^verbatim>\<open>handleWebSocketMessage\<close>; \<open>pong\<close> is the frame \<^verbatim>\<open>{ type: "pong" }\<close>.\<close>

definition handleWebSocketMessage ::
  "string \<Rightarrow> ws_message \<Rightarrow> 'm \<Rightarrow> 'm ws_state \<Rightarrow> 'm ws_state" where
  "handleWebSocketMessage clientId message pong s =
     (case map_of (connectedClients s) clientId of
        None \<Rightarrow> s
      | Some client \<Rightarrow>
          (case message of
             Register userId role lat lng \<Rightarrow>
               s\<lparr>connectedClients :=
                    AList.map_entry clientId
                      (\<lambda>c. c\<lparr>client_userId := userId, client_role := role,
                              client_lat := lat, client_lng := lng\<rparr>)
                      (connectedClients s)\<rparr>
           | LocationUpdate lat lng \<Rightarrow>
               s\<lparr>connectedClients :=
                    AList.map_entry clientId (\<lambda>c. c\<lparr>client_lat := lat, client_lng := lng\<rparr>)
                      (connectedClients s)\<rparr>
           | Ping \<Rightarrow> sendToClient clientId pong s
           | OtherType \<Rightarrow> s))"

text \<open>The frames of a log of the registry that went to one client.\<close>

definition frames_of :: "string \<Rightarrow> (string \<times> 'm) list \<Rightarrow> 'm list" where
  "frames_of i xs = map snd (filter (\<lambda>p. fst p = i) xs)"

text \<open>\<^verbatim>\<open>broadcastToAll\<close> and \<^verbatim>\<open>notifyAgents\<close>: \<^verbatim>\<open>connectedClients.forEach\<close>.\<close>

definition broadcastToAll :: "'m \<Rightarrow> 'm ws_state \<Rightarrow> 'm ws_state" where
  "broadcastToAll message s =
     fold (\<lambda>(clientId, client) st. sendToClient clientId message st) (connectedClients s) s"

definition notifyAgents :: "'m \<Rightarrow> 'm ws_state \<Rightarrow> 'm ws_state" where
  "notifyAgents message s =
     fold (\<lambda>(clientId, client) st.
             if client_role client = Some ''agent'' then sendToClient clientId message st else st)
          (connectedClients s) s"

text \<open>An element of the array that \<^verbatim>\<open>findClientsWithinRadius\<close> returns.\<close>

record nearby =
  nearby_id :: string
  nearby_lat :: real
  nearby_lng :: real

text \<open>
  \<^verbatim>\<open>findClientsWithinRadius\<close>: the loop over the entries, pushing onto \<^verbatim>\<open>nearbyClients\<close>.
\<close>

fun findClients_loop ::
  "js_math \<Rightarrow> real \<Rightarrow> real \<Rightarrow> real \<Rightarrow> (string \<times> client) list \<Rightarrow> nearby list \<Rightarrow> nearby list"
  where
  "findClients_loop M lat lng radiusKm [] nearbyClients = nearbyClients"
| "findClients_loop M lat lng radiusKm ((clientId, client) # rest) nearbyClients =
     findClients_loop M lat lng radiusKm rest
       (if truthy_num (client_lat client) \<and> truthy_num (client_lng client) \<and>
           client_role client = Some ''community''
        then (let distance =
                    calculateDistance M lat lng (the (client_lat client)) (the (client_lng client))
              in if js_le distance (Num radiusKm)
                 then nearbyClients @
                        [\<lparr>nearby_id = clientId, nearby_lat = the (client_lat client),
                          nearby_lng = the (client_lng client)\<rparr>]
                 else nearbyClients)
        else nearbyClients)"

definition findClientsWithinRadius ::
  "js_math \<Rightarrow> (string \<times> client) list \<Rightarrow> real \<Rightarrow> real \<Rightarrow> real \<Rightarrow> nearby list" where
  "findClientsWithinRadius M clients lat lng radiusKm =
     findClients_loop M lat lng radiusKm clients []"

text \<open>
  The fan-out of the alert route: \<^verbatim>\<open>nearbyClients.forEach(client => sendToClient(client.id, ...))\<close>,
  where the frame carries the distance of the recipient; \<open>mk\<close> builds the frame from it.
\<close>

definition alertFanOut ::
  "js_math \<Rightarrow> real \<Rightarrow> real \<Rightarrow> real \<Rightarrow> (number \<Rightarrow> 'm) \<Rightarrow> 'm ws_state \<Rightarrow> 'm ws_state" where
  "alertFanOut M lat lng radiusKm mk s =
     fold (\<lambda>c st. sendToClient (nearby_id c)
                     (mk (calculateDistance M lat lng (nearby_lat c) (nearby_lng c))) st)
          (findClientsWithinRadius M (connectedClients s) lat lng radiusKm) s"

subsection \<open>Push subscriptions (storage module)\<close>

text \<open>A row of \<^verbatim>\<open>pushSubscriptions\<close>; \<^verbatim>\<open>lat\<close> and \<^verbatim>\<open>lng\<close> are nullable columns.\<close>

record pushSubscription =
  sub_id :: string
  sub_userId :: "string option"
  sub_subscription :: string
  sub_lat :: "real option"
  sub_lng :: "real option"
  sub_isActive :: bool

text \<open>\<^verbatim>\<open>getPushSubscriptionsNearLocation\<close>, over the values of the map.\<close>

definition getPushSubscriptionsNearLocation ::
  "js_math \<Rightarrow> pushSubscription list \<Rightarrow> real \<Rightarrow> real \<Rightarrow> real \<Rightarrow> pushSubscription list" where
  "getPushSubscriptionsNearLocation M subs lat lng radiusKm =
     filter (\<lambda>sub.
        if \<not> truthy_num (sub_lat sub) \<or> \<not> truthy_num (sub_lng sub) \<or> \<not> sub_isActive sub
        then False
        else (let distance =
                    storage_calculateDistance M lat lng (the (sub_lat sub)) (the (sub_lng sub))
              in js_le distance (Num radiusKm))) subs"

subsection \<open>The signaling server (\<^verbatim>\<open>webrtc.ts\<close>)\<close>

text \<open>\<^verbatim>\<open>role: "agent" | "user"\<close>.\<close>

datatype rtc_role = Agent | User

text \<open>\<^verbatim>\<open>interface WebRTCConnection\<close>.\<close>

record WebRTCConnection =
  conn_id :: string
  conn_socketOpen :: bool
  conn_role :: rtc_role
  conn_alertId :: "string option"
  conn_userId :: "string option"
  isConnected :: bool

text \<open>The three relayed kinds of \<^verbatim>\<open>SignalingMessage\<close>.\<close>

datatype sig_type = Offer | Answer | IceCandidate

text \<open>
  An inbound \<^verbatim>\<open>SignalingMessage\<close>, by its \<^verbatim>\<open>type\<close>: \<^verbatim>\<open>join-call\<close> with the fields
  \<^verbatim>\<open>alertId\<close>, \<^verbatim>\<open>role\<close>, \<^verbatim>\<open>userId\<close> of its \<^verbatim>\<open>data\<close>; a relayed message with its kind,
  its optional \<^verbatim>\<open>to\<close> and its opaque \<^verbatim>\<open>data\<close>; \<^verbatim>\<open>leave-call\<close>; any other type.
\<close>

datatype 'd SignalingMessage =
    JoinCall string rtc_role "string option"
  | Relay sig_type "string option" 'd
  | LeaveCall
  | UnknownType

text \<open>
  The frames the server writes: \<^verbatim>\<open>connection-established\<close> (connectionId), \<^verbatim>\<open>user-joined\<close>
  (connectionId, role, userId), \<^verbatim>\<open>user-left\<close> (connectionId, role), \<^verbatim>\<open>agent-available\<close>
  (agentId), \<^verbatim>\<open>incoming-call\<close> (agentId, alertId), and a relayed frame (type, data, from).
\<close>

datatype 'd out_message =
    ConnectionEstablished string
  | UserJoined string rtc_role "string option"
  | UserLeft string rtc_role
  | AgentAvailable string
  | IncomingCall string string
  | Signal sig_type 'd string

text \<open>
  The fields of the class, \<^verbatim>\<open>connections\<close> and \<^verbatim>\<open>activeRooms\<close>, and the log of the frames
  written, each with its recipient.
\<close>

record 'd rtc_state =
  connections :: "(string \<times> WebRTCConnection) list"
  activeRooms :: "(string \<times> string list) list"
  outbox :: "(string \<times> 'd out_message) list"

text \<open>\<^verbatim>\<open>Set.prototype.add\<close> on a set kept in insertion order.\<close>

definition set_add :: "'a \<Rightarrow> 'a list \<Rightarrow> 'a list" where
  "set_add x xs = (if x \<in> set xs then xs else xs @ [x])"

text \<open>
  A connection that a frame can reach: it has an entry in \<^verbatim>\<open>connections\<close> and its socket is
  open. This is the condition under which \<^verbatim>\<open>sendMessage\<close> writes.
\<close>

definition rtc_live :: "'d rtc_state \<Rightarrow> string \<Rightarrow> bool" where
  "rtc_live s i =
     (case map_of (connections s) i of None \<Rightarrow> False | Some c \<Rightarrow> conn_socketOpen c)"

definition sendMessage :: "string \<Rightarrow> 'd out_message \<Rightarrow> 'd rtc_state \<Rightarrow> 'd rtc_state" where
  "sendMessage connectionId message s =
     (case map_of (connections s) connectionId of
        None \<Rightarrow> s
      | Some connection \<Rightarrow>
          if conn_socketOpen connection
          then s\<lparr>outbox := outbox s @ [(connectionId, message)]\<rparr>
          else s)"

definition broadcastToRoom ::
  "string \<Rightarrow> 'd out_message \<Rightarrow> string option \<Rightarrow> 'd rtc_state \<Rightarrow> 'd rtc_state" where
  "broadcastToRoom alertId message excludeId s =
     (case map_of (activeRooms s) alertId of
        None \<Rightarrow> s
      | Some room \<Rightarrow>
          fold (\<lambda>connectionId st.
                  if Some connectionId \<noteq> excludeId then sendMessage connectionId message st else st)
               room s)"

text \<open>The callback of \<^verbatim>\<open>find\<close> in \<^verbatim>\<open>handleJoinCall\<close>: \<^verbatim>\<open>conn?.role === "user"\<close>.\<close>

definition isUser :: "'d rtc_state \<Rightarrow> string \<Rightarrow> bool" where
  "isUser s i = (case map_of (connections s) i of None \<Rightarrow> False | Some conn \<Rightarrow> conn_role conn = User)"

definition handleJoinCall ::
  "string \<Rightarrow> string \<Rightarrow> rtc_role \<Rightarrow> string option \<Rightarrow> 'd rtc_state \<Rightarrow> 'd rtc_state" where
  "handleJoinCall connectionId alertId role userId s =
     (case map_of (connections s) connectionId of
        None \<Rightarrow> s
      | Some connection \<Rightarrow>
          let s1 = s\<lparr>connections :=
                      AList.map_entry connectionId
                        (\<lambda>c. c\<lparr>conn_alertId := Some alertId, conn_role := role, conn_userId := userId\<rparr>)
                        (connections s)\<rparr>;
              s2 = (if map_of (activeRooms s1) alertId = None
                    then s1\<lparr>activeRooms := AList.update alertId [] (activeRooms s1)\<rparr>
                    else s1);
              s3 = s2\<lparr>activeRooms :=
                       AList.map_entry alertId (set_add connectionId) (activeRooms s2)\<rparr>;
              s4 = broadcastToRoom alertId (UserJoined connectionId role userId) (Some connectionId) s3
          in if role = Agent
             then (case map_of (activeRooms s4) alertId of
                     None \<Rightarrow> s4
                   | Some room \<Rightarrow>
                       (case find (isUser s4) room of
                          None \<Rightarrow> s4
                        | Some userConnection \<Rightarrow>
                            if userConnection \<noteq> []
                            then sendMessage userConnection (AgentAvailable connectionId) s4
                            else s4))
             else s4)"

definition handleOffer :: "string \<Rightarrow> string option \<Rightarrow> 'd \<Rightarrow> 'd rtc_state \<Rightarrow> 'd rtc_state" where
  "handleOffer fromId to d s =
     (if truthy_str to \<and> map_of (connections s) (the to) \<noteq> None
      then sendMessage (the to) (Signal Offer d fromId) s
      else s)"

definition handleAnswer :: "string \<Rightarrow> string option \<Rightarrow> 'd \<Rightarrow> 'd rtc_state \<Rightarrow> 'd rtc_state" where
  "handleAnswer fromId to d s =
     (if truthy_str to \<and> map_of (connections s) (the to) \<noteq> None
      then sendMessage (the to) (Signal Answer d fromId) s
      else s)"

definition handleIceCandidate :: "string \<Rightarrow> string option \<Rightarrow> 'd \<Rightarrow> 'd rtc_state \<Rightarrow> 'd rtc_state" where
  "handleIceCandidate fromId to d s =
     (if truthy_str to \<and> map_of (connections s) (the to) \<noteq> None
      then sendMessage (the to) (Signal IceCandidate d fromId) s
      else s)"

definition handleLeaveCall :: "string \<Rightarrow> 'd rtc_state \<Rightarrow> 'd rtc_state" where
  "handleLeaveCall connectionId s =
     (case map_of (connections s) connectionId of
        None \<Rightarrow> s
      | Some connection \<Rightarrow>
          if \<not> truthy_str (conn_alertId connection) then s
          else
            let alertId = the (conn_alertId connection);
                s1 = (case map_of (activeRooms s) alertId of
                        None \<Rightarrow> s
                      | Some room \<Rightarrow>
                          let s' = s\<lparr>activeRooms :=
                                      AList.map_entry alertId (removeAll connectionId) (activeRooms s)\<rparr>
                          in if removeAll connectionId room = []
                             then s'\<lparr>activeRooms := AList.delete alertId (activeRooms s')\<rparr>
                             else s')
            in broadcastToRoom alertId (UserLeft connectionId (conn_role connection))
                 (Some connectionId) s1)"

definition handleConnectionClose :: "string \<Rightarrow> 'd rtc_state \<Rightarrow> 'd rtc_state" where
  "handleConnectionClose connectionId s =
     (case map_of (connections s) connectionId of
        None \<Rightarrow> s
      | Some connection \<Rightarrow>
          let s1 = (if truthy_str (conn_alertId connection) then handleLeaveCall connectionId s else s)
          in s1\<lparr>connections := AList.delete connectionId (connections s1)\<rparr>)"

definition handleSignalingMessage ::
  "string \<Rightarrow> 'd SignalingMessage \<Rightarrow> 'd rtc_state \<Rightarrow> 'd rtc_state" where
  "handleSignalingMessage fromId message s =
     (case map_of (connections s) fromId of
        None \<Rightarrow> s
      | Some connection \<Rightarrow>
          (case message of
             JoinCall alertId role userId \<Rightarrow> handleJoinCall fromId alertId role userId s
           | Relay Offer to d \<Rightarrow> handleOffer fromId to d s
           | Relay Answer to d \<Rightarrow> handleAnswer fromId to d s
           | Relay IceCandidate to d \<Rightarrow> handleIceCandidate fromId to d s
           | LeaveCall \<Rightarrow> handleLeaveCall fromId s
           | UnknownType \<Rightarrow> s))"

text \<open>
  The \<^verbatim>\<open>connection\<close> handler of the constructor; the identifier that
  \<^verbatim>\<open>generateConnectionId\<close> draws is a parameter.
\<close>

definition onConnection :: "string \<Rightarrow> 'd rtc_state \<Rightarrow> 'd rtc_state" where
  "onConnection connectionId s =
     sendMessage connectionId (ConnectionEstablished connectionId)
       (s\<lparr>connections :=
            AList.update connectionId
              \<lparr>conn_id = connectionId, conn_socketOpen = True, conn_role = User,
               conn_alertId = None, conn_userId = None, isConnected = True\<rparr>
              (connections s)\<rparr>)"

text \<open>
  The transport moves the socket of a connection out of the open state (\<^verbatim>\<open>readyState\<close>
  becomes \<^verbatim>\<open>CLOSING\<close> or \<^verbatim>\<open>CLOSED\<close>); the \<^verbatim>\<open>close\<close> event comes later.
\<close>

definition socketNotOpen :: "string \<Rightarrow> 'd rtc_state \<Rightarrow> 'd rtc_state" where
  "socketNotOpen connectionId s =
     s\<lparr>connections :=
          AList.map_entry connectionId (\<lambda>c. c\<lparr>conn_socketOpen := False\<rparr>) (connections s)\<rparr>"

text \<open>
  What the transport can do to the server: open a connection, deliver a frame of a connection,
  take the socket of a connection out of the open state, and close a connection (the
  \<^verbatim>\<open>close\<close> and the \<^verbatim>\<open>error\<close> handler both call \<^verbatim>\<open>handleConnectionClose\<close>).
\<close>

datatype 'd event =
    Connect string
  | Message string "'d SignalingMessage"
  | NotOpen string
  | Close string

fun step :: "'d event \<Rightarrow> 'd rtc_state \<Rightarrow> 'd rtc_state" where
  "step (Connect c) s = onConnection c s"
| "step (Message c m) s = handleSignalingMessage c m s"
| "step (NotOpen c) s = socketNotOpen c s"
| "step (Close c) s = handleConnectionClose c s"

definition run :: "'d event list \<Rightarrow> 'd rtc_state \<Rightarrow> 'd rtc_state" where
  "run evs s = fold step evs s"

text \<open>The server after construction.\<close>

definition initial :: "'d rtc_state" where
  "initial = \<lparr>connections = [], activeRooms = [], outbox = []\<rparr>"

subsection \<open>Observations on the signaling state\<close>

text \<open>The members of a room, in insertion order; a room that does not exist has none.\<close>

definition room_of :: "'d rtc_state \<Rightarrow> string \<Rightarrow> string list" where
  "room_of s a = (case map_of (activeRooms s) a of None \<Rightarrow> [] | Some room \<Rightarrow> room)"

text \<open>The frames written between a state \<open>s\<close> and a later state \<open>s'\<close>.\<close>

definition frames_since ::
  "'d rtc_state \<Rightarrow> 'd rtc_state \<Rightarrow> (string \<times> 'd out_message) list" where
  "frames_since s s' = drop (length (outbox s)) (outbox s')"

text \<open>The frames of a log that went to one recipient.\<close>

definition frames_to :: "string \<Rightarrow> (string \<times> 'd out_message) list \<Rightarrow> 'd out_message list" where
  "frames_to i xs = map snd (filter (\<lambda>p. fst p = i) xs)"

fun is_joined :: "'d out_message \<Rightarrow> bool" where
  "is_joined (UserJoined c r u) = True"
| "is_joined m = False"

fun is_left :: "'d out_message \<Rightarrow> bool" where
  "is_left (UserLeft c r) = True"
| "is_left m = False"

fun is_available :: "'d out_message \<Rightarrow> bool" where
  "is_available (AgentAvailable c) = True"
| "is_available m = False"

subsection \<open>Concrete scenarios\<close>

text \<open>In the scenarios of the signaling server the relayed payload is a string.\<close>

text \<open>
  A client connects and registers as a community member on the prime meridian, at (51.5, 0);
  and the same place as a point.
\<close>

definition greenwich_registry :: "string ws_state" where
  "greenwich_registry =
     handleWebSocketMessage ''c1'' (Register None (Some ''community'') (Some 51.5) (Some 0))
       ''pong''
       (ws_onConnection ''c1'' ''connected'' \<lparr>connectedClients = [], ws_sent = []\<rparr>)"

definition greenwich_point :: "string point" where
  "greenwich_point = \<lparr>point_lat = 51.5, point_lng = 0, point_data = ''c1''\<rparr>"

text \<open>A community client registered at (0, 0), and an active push subscription at (0, 0).\<close>

definition origin_client :: client where
  "origin_client =
     \<lparr>client_socketOpen = True, client_userId = None, client_role = Some ''community'',
      client_lat = Some 0, client_lng = Some 0\<rparr>"

definition origin_registry :: "string ws_state" where
  "origin_registry =
     handleWebSocketMessage ''c1'' (Register None (Some ''community'') (Some 0) (Some 0))
       ''pong''
       (ws_onConnection ''c1'' ''connected'' \<lparr>connectedClients = [], ws_sent = []\<rparr>)"

definition origin_sub :: pushSubscription where
  "origin_sub =
     \<lparr>sub_id = ''p1'', sub_userId = None, sub_subscription = ''{}'',
      sub_lat = Some 0, sub_lng = Some 0, sub_isActive = True\<rparr>"

text \<open>
  Two community clients connect and register at the same place; then the socket of the first
  leaves the open state, and its \<^verbatim>\<open>close\<close> event has not been handled yet.
\<close>

definition half_closed_registry :: "string ws_state" where
  "half_closed_registry =
     ws_socketNotOpen ''dead''
       (handleWebSocketMessage ''live'' (Register None (Some ''community'') (Some 1) (Some 1))
          ''pong''
          (ws_onConnection ''live'' ''connected''
             (handleWebSocketMessage ''dead''
                (Register None (Some ''community'') (Some 1) (Some 1)) ''pong''
                (ws_onConnection ''dead'' ''connected''
                   \<lparr>connectedClients = [], ws_sent = []\<rparr>))))"

text \<open>Two connections open.\<close>

definition two_connected :: "string rtc_state" where
  "two_connected = run [Connect ''c1'', Connect ''c2''] initial"

text \<open>Two connections open; the socket of the second has left the open state.\<close>

definition second_closing :: "string rtc_state" where
  "second_closing = run [NotOpen ''c2''] two_connected"

text \<open>Two connections open, and both join the room \<open>A\<close>, each once, as users.\<close>

definition two_joined :: "string rtc_state" where
  "two_joined =
     run [Message ''c1'' (JoinCall ''A'' User None), Message ''c2'' (JoinCall ''A'' User None)]
       two_connected"

text \<open>A user waits in the room \<open>A\<close>; the connection \<open>c2\<close> is open and in no room.\<close>

definition user_waiting :: "string rtc_state" where
  "user_waiting = run [Message ''c1'' (JoinCall ''A'' User None)] two_connected"

text \<open>Then an agent joins the room.\<close>

definition agent_joined :: "string rtc_state" where
  "agent_joined = run [Message ''c2'' (JoinCall ''A'' Agent None)] user_waiting"

text \<open>Then the user ends the call: the client sends \<^verbatim>\<open>leave-call\<close>.\<close>

definition user_left :: "string rtc_state" where
  "user_left = run [Message ''c1'' LeaveCall] agent_joined"

text \<open>One connection joins the room \<open>A\<close>, then the room \<open>B\<close>, and disconnects.\<close>

definition two_rooms_then_close :: "string event list" where
  "two_rooms_then_close =
     [Connect ''c1'', Message ''c1'' (JoinCall ''A'' User None),
      Message ''c1'' (JoinCall ''B'' User None), Close ''c1'']"

section \<open>The distance\<close>

subsection \<open>The formula of the specification, over the reals\<close>

lemma spec_radians_diff: "spec_radians (u - v) = spec_radians u - spec_radians v"
  by (simp add: spec_radians_def left_diff_distrib)

lemma sin_half_sq: "sin (x / 2) * sin (x / 2) = (1 - cos x) / 2" for x :: real
  using cos_double_sin [of "x / 2"] by (simp add: power2_eq_square)

lemma half_range:
  fixes c :: real
  assumes "- 1 \<le> c" and "c \<le> 1"
  shows "0 \<le> (1 + c) / 2 \<and> (1 + c) / 2 \<le> 1 \<and> 0 \<le> (1 - c) / 2 \<and> (1 - c) / 2 \<le> 1"
  using assms by simp

lemma convex_alg:
  fixes cp cq sp sq t :: real
  shows "(1 - (cq * cp + sq * sp)) / 2 + cp * cq * t =
         t * ((1 + (cp * cq - sp * sq)) / 2) + (1 - t) * ((1 - (cq * cp + sq * sp)) / 2)"
  by (simp add: field_simps)

text \<open>
  \<^verbatim>\<open>a\<close> is a convex combination, with weight \<open>sin\<^sup>2 (dLng / 2)\<close>, of
  \<open>(1 + cos (p + q)) / 2\<close> and \<open>(1 - cos (q - p)) / 2\<close>.
\<close>

lemma spec_x_convex:
  "spec_x lat1 lng1 lat2 lng2 =
     (let p = spec_radians lat1; q = spec_radians lat2;
          t = sin (spec_radians (lng2 - lng1) / 2) * sin (spec_radians (lng2 - lng1) / 2)
      in t * ((1 + cos (p + q)) / 2) + (1 - t) * ((1 - cos (q - p)) / 2))"
proof -
  have "spec_x lat1 lng1 lat2 lng2 =
      (1 - cos (spec_radians lat2 - spec_radians lat1)) / 2 +
      cos (spec_radians lat1) * cos (spec_radians lat2) *
        (sin (spec_radians (lng2 - lng1) / 2) * sin (spec_radians (lng2 - lng1) / 2))"
    unfolding spec_x_def Let_def spec_radians_diff [of lat2 lat1]
      sin_half_sq [of "spec_radians lat2 - spec_radians lat1"]
    by (simp add: mult.assoc)
  also have "\<dots> = sin (spec_radians (lng2 - lng1) / 2) * sin (spec_radians (lng2 - lng1) / 2) *
        ((1 + cos (spec_radians lat1 + spec_radians lat2)) / 2) +
      (1 - sin (spec_radians (lng2 - lng1) / 2) * sin (spec_radians (lng2 - lng1) / 2)) *
        ((1 - cos (spec_radians lat2 - spec_radians lat1)) / 2)"
    unfolding cos_add cos_diff by (rule convex_alg)
  finally show ?thesis by (simp add: Let_def)
qed

text \<open>So \<^verbatim>\<open>a\<close> and \<^verbatim>\<open>1 - a\<close> are never negative, whatever the four arguments.\<close>

lemma spec_x_range:
  "0 \<le> spec_x lat1 lng1 lat2 lng2 \<and> spec_x lat1 lng1 lat2 lng2 \<le> 1"
proof -
  define t where "t = sin (spec_radians (lng2 - lng1) / 2) * sin (spec_radians (lng2 - lng1) / 2)"
  define A where "A = (1 + cos (spec_radians lat1 + spec_radians lat2)) / 2"
  define B where "B = (1 - cos (spec_radians lat2 - spec_radians lat1)) / 2"
  have t0: "0 \<le> t" unfolding t_def by simp
  have t1: "t \<le> 1" unfolding t_def sin_half_sq
    using half_range [OF cos_ge_minus_one cos_le_one, of "spec_radians (lng2 - lng1)"] by blast
  have A0: "0 \<le> A" and A1: "A \<le> 1" unfolding A_def
    using half_range [OF cos_ge_minus_one cos_le_one, of "spec_radians lat1 + spec_radians lat2"]
    by blast+
  have B0: "0 \<le> B" and B1: "B \<le> 1" unfolding B_def
    using half_range [OF cos_ge_minus_one cos_le_one, of "spec_radians lat2 - spec_radians lat1"]
    by blast+
  have eq: "spec_x lat1 lng1 lat2 lng2 = t * A + (1 - t) * B"
    unfolding spec_x_convex Let_def t_def A_def B_def by simp
  have lo: "0 \<le> t * A + (1 - t) * B" using t0 t1 A0 B0 by simp
  have "t * A \<le> t * 1" using t0 A1 by (rule mult_left_mono[rotated])
  moreover have "(1 - t) * B \<le> (1 - t) * 1" using t1 B1 by (intro mult_left_mono) auto
  ultimately have hi: "t * A + (1 - t) * B \<le> 1" by simp
  show ?thesis using eq lo hi by simp
qed

lemma atan2_nonneg: "0 \<le> y \<Longrightarrow> 0 \<le> atan2 y x"
proof -
  assume y: "0 \<le> y"
  have pos: "0 < x \<Longrightarrow> 0 \<le> arctan (y / x)" using y by (simp add: zero_le_divide_iff)
  have neg: "0 \<le> arctan (y / x) + pi"
    using arctan_lbound [of "y / x"] pi_gt_zero by linarith
  show ?thesis unfolding atan2_def using y pos neg pi_ge_zero by auto
qed

lemma spec_distanceKm_a:
  "spec_distanceKm lat1 lng1 lat2 lng2 =
     6371 * (2 * atan2 (sqrt (spec_x lat1 lng1 lat2 lng2))
                      (sqrt (1 - spec_x lat1 lng1 lat2 lng2)))"
  by (simp add: spec_distanceKm_def spec_x_def Let_def)

lemma spec_x_sym: "spec_x lat1 lng1 lat2 lng2 = spec_x lat2 lng2 lat1 lng1"
proof -
  have 1: "spec_radians (lat1 - lat2) = - spec_radians (lat2 - lat1)" by (simp add: spec_radians_diff)
  have 2: "spec_radians (lng1 - lng2) = - spec_radians (lng2 - lng1)" by (simp add: spec_radians_diff)
  show ?thesis unfolding spec_x_def Let_def 1 2 by simp
qed

lemma spec_x_same: "spec_x lat lng lat lng = 0"
  by (simp add: spec_x_def spec_radians_def)

lemma spec_distanceKm_same: "spec_distanceKm lat lng lat lng = 0"
  unfolding spec_distanceKm_a spec_x_same by (simp add: atan2_def)

lemma spec_distanceKm_nonneg: "0 \<le> spec_distanceKm lat1 lng1 lat2 lng2"
proof -
  have "0 \<le> sqrt (spec_x lat1 lng1 lat2 lng2)"
    using spec_x_range [of lat1 lng1 lat2 lng2] by simp
  then have "0 \<le> atan2 (sqrt (spec_x lat1 lng1 lat2 lng2))
                       (sqrt (1 - spec_x lat1 lng1 lat2 lng2))"
    by (rule atan2_nonneg)
  then show ?thesis unfolding spec_distanceKm_a by simp
qed

lemma spec_distanceKm_sym:
  "spec_distanceKm lat1 lng1 lat2 lng2 = spec_distanceKm lat2 lng2 lat1 lng1"
  unfolding spec_distanceKm_a using spec_x_sym [of lat1 lng1 lat2 lng2] by simp

lemma atan2_range: "0 \<le> y \<Longrightarrow> 0 \<le> x \<Longrightarrow> 0 \<le> atan2 y x \<and> atan2 y x \<le> pi / 2"
proof -
  assume y: "0 \<le> y" and x: "0 \<le> x"
  have "atan2 y x \<le> pi / 2"
    unfolding atan2_def using x y arctan_ubound [of "y / x"] pi_ge_zero by auto
  then show ?thesis using atan2_nonneg [OF y] by simp
qed

text \<open>The angle \<open>atan2 (sqrt a) (sqrt (1 - a))\<close> has squared cosine \<open>1 - a\<close>.\<close>

lemma cos_atan2_sq:
  assumes "0 \<le> a" and "a \<le> 1"
  shows "(cos (atan2 (sqrt a) (sqrt (1 - a))))\<^sup>2 = 1 - a"
proof (cases "a = 1")
  case True
  then show ?thesis by (simp add: atan2_def)
next
  case False
  then have lt: "a < 1" using assms by simp
  then have pos: "0 < sqrt (1 - a)" by simp
  have eq: "atan2 (sqrt a) (sqrt (1 - a)) = arctan (sqrt a / sqrt (1 - a))"
    using pos by (simp add: atan2_def)
  have sq: "(sqrt a / sqrt (1 - a))\<^sup>2 = a / (1 - a)"
    using assms lt by (simp add: power_divide)
  have one: "1 + a / (1 - a) = 1 / (1 - a)"
    using lt by (simp add: field_simps)
  have "(cos (arctan (sqrt a / sqrt (1 - a))))\<^sup>2 = 1 / (1 + (sqrt a / sqrt (1 - a))\<^sup>2)"
    unfolding cos_arctan by (simp add: power_divide add_nonneg_nonneg)
  also have "\<dots> = 1 - a" unfolding sq one using lt by simp
  finally show ?thesis unfolding eq .
qed

text \<open>\<open>1 - 2 a\<close> is the right-hand side of the spherical law of cosines.\<close>

lemma one_minus_two_a:
  "1 - 2 * spec_x lat1 lng1 lat2 lng2 =
     sin (spec_radians lat1) * sin (spec_radians lat2) +
     cos (spec_radians lat1) * cos (spec_radians lat2) * cos (spec_radians (lng2 - lng1))"
proof -
  have "spec_x lat1 lng1 lat2 lng2 =
      (1 - cos (spec_radians lat2 - spec_radians lat1)) / 2 +
      cos (spec_radians lat1) * cos (spec_radians lat2) * ((1 - cos (spec_radians (lng2 - lng1))) / 2)"
    unfolding spec_x_def Let_def spec_radians_diff [of lat2 lat1]
      sin_half_sq [of "spec_radians lat2 - spec_radians lat1", symmetric]
      sin_half_sq [of "spec_radians (lng2 - lng1)", symmetric]
    by (simp add: mult.assoc)
  then show ?thesis unfolding cos_diff by (simp add: field_simps)
qed

lemma spec_distanceKm_central_angle:
  "cos (spec_distanceKm lat1 lng1 lat2 lng2 / 6371) =
     sin (spec_radians lat1) * sin (spec_radians lat2) +
     cos (spec_radians lat1) * cos (spec_radians lat2) * cos (spec_radians (lng2 - lng1)) \<and>
   0 \<le> spec_distanceKm lat1 lng1 lat2 lng2 / 6371 \<and>
   spec_distanceKm lat1 lng1 lat2 lng2 / 6371 \<le> pi"
proof -
  define a where "a = spec_x lat1 lng1 lat2 lng2"
  define t where "t = atan2 (sqrt a) (sqrt (1 - a))"
  have a: "0 \<le> a" "a \<le> 1" unfolding a_def using spec_x_range by blast+
  have d: "spec_distanceKm lat1 lng1 lat2 lng2 / 6371 = 2 * t"
    unfolding spec_distanceKm_a t_def a_def by simp
  have "cos (2 * t) = 2 * (cos t)\<^sup>2 - 1" by (rule cos_double_cos)
  also have "\<dots> = 1 - 2 * a" unfolding t_def cos_atan2_sq [OF a] by simp
  finally have c: "cos (2 * t) = 1 - 2 * a" .
  have r: "0 \<le> t \<and> t \<le> pi / 2"
    unfolding t_def using a by (intro atan2_range) simp_all
  show ?thesis
    unfolding d c using r one_minus_two_a [of lat1 lng1 lat2 lng2] by (simp add: a_def)
qed

text \<open>The formula gives the great-circle distance: the radius times the angle whose cosine the
  spherical law of cosines gives.\<close>

lemma spec_distanceKm_great_circle:
  "spec_distanceKm lat1 lng1 lat2 lng2 =
     6371 * arccos (sin (spec_radians lat1) * sin (spec_radians lat2) +
                    cos (spec_radians lat1) * cos (spec_radians lat2) *
                      cos (spec_radians (lng2 - lng1)))"
proof -
  let ?t = "spec_distanceKm lat1 lng1 lat2 lng2 / 6371"
  have "arccos (cos ?t) = ?t"
    using spec_distanceKm_central_angle [of lat1 lng1 lat2 lng2] by (intro arccos_cos) simp_all
  then have "spec_distanceKm lat1 lng1 lat2 lng2 = 6371 * arccos (cos ?t)" by simp
  also have "cos ?t =
      sin (spec_radians lat1) * sin (spec_radians lat2) +
      cos (spec_radians lat1) * cos (spec_radians lat2) * cos (spec_radians (lng2 - lng1))"
    using spec_distanceKm_central_angle [of lat1 lng1 lat2 lng2] by simp
  finally show ?thesis .
qed

lemma spec_distanceKm_le: "spec_distanceKm lat1 lng1 lat2 lng2 \<le> 6371 * pi"
  using spec_distanceKm_central_angle [of lat1 lng1 lat2 lng2] by simp

subsection \<open>The code, in any environment\<close>

lemma calculateDistance_a:
  "calculateDistance M lat1 lng1 lat2 lng2 =
     times_num M 6371
       (times_num M 2
          (atan2_num M (Math_sqrt M (haversine_a M lat1 lng1 lat2 lng2))
                       (Math_sqrt M (fsub M 1 (haversine_a M lat1 lng1 lat2 lng2)))))"
  by (simp add: calculateDistance_def haversine_a_def Let_def)

text \<open>Without a clamp, a computed \<^verbatim>\<open>1 - a\<close> below 0 makes the result NaN.\<close>

lemma calculateDistance_NaN:
  assumes "fsub M 1 (haversine_a M lat1 lng1 lat2 lng2) < 0"
  shows "calculateDistance M lat1 lng1 lat2 lng2 = NaN"
  unfolding calculateDistance_a using assms
  by (simp add: Math_sqrt_def atan2_num_def times_num_def split: number.splits)

text \<open>The distance of a point to itself is computed as 0 in every engine.\<close>

lemma calculateDistance_same:
  assumes "zero_one_exact M"
  shows "calculateDistance M lat lng lat lng = Num 0"
proof -
  have z: "rounded M 0 = 0" "rounded M 1 = 1" "Math_sin M 0 = 0" "Math_atan2 M 0 1 = 0"
    using assms by (simp_all add: zero_one_exact_def)
  have r: "toRadians M (fsub M lat lat) = 0" "toRadians M (fsub M lng lng) = 0"
    by (simp_all add: toRadians_def fsub_def fmul_def z)
  have a: "haversine_a M lat lng lat lng = 0"
    unfolding haversine_a_def Let_def r by (simp add: fdiv_def fmul_def fadd_def z)
  show ?thesis
    unfolding calculateDistance_a a
    by (simp add: Math_sqrt_def atan2_num_def times_num_def fsub_def fmul_def z)
qed

text \<open>In exact arithmetic the code computes the formula of the specification.\<close>

lemma zero_one_exact_exact_math: "zero_one_exact exact_math"
  by (simp add: zero_one_exact_def exact_math_def atan2_def)

lemma haversine_a_exact: "haversine_a exact_math lat1 lng1 lat2 lng2 = spec_x lat1 lng1 lat2 lng2"
  by (simp add: haversine_a_def spec_x_def toRadians_def spec_radians_def exact_math_def
      fadd_def fsub_def fmul_def fdiv_def Let_def)

lemma calculateDistance_exact:
  "calculateDistance exact_math lat1 lng1 lat2 lng2 = Num (spec_distanceKm lat1 lng1 lat2 lng2)"
proof -
  have x: "0 \<le> spec_x lat1 lng1 lat2 lng2" "spec_x lat1 lng1 lat2 lng2 \<le> 1"
    using spec_x_range [of lat1 lng1 lat2 lng2] by simp_all
  show ?thesis
    unfolding calculateDistance_a haversine_a_exact spec_distanceKm_a using x
    by (simp add: Math_sqrt_def atan2_num_def times_num_def fsub_def fmul_def exact_math_def)
qed

subsection \<open>Rounding to a double\<close>

lemma round_ties_even_eqI:
  assumes "\<bar>x - of_int n\<bar> < 1 / 2"
  shows "round_ties_even x = n"
proof -
  have a: "x - of_int n < 1 / 2" "- (x - of_int n) < 1 / 2"
    using assms by (simp_all only: abs_less_iff)
  show ?thesis
  proof (cases "of_int n \<le> x")
    case True
    then have "of_int n \<le> x" "x < of_int n + 1" using a by linarith+
    then have f: "\<lfloor>x\<rfloor> = n" by (rule floor_unique)
    show ?thesis using a(1) by (simp add: round_ties_even_def f Let_def)
  next
    case False
    then have "of_int (n - 1) \<le> x" "x < of_int (n - 1) + 1" using a by simp_all
    then have f: "\<lfloor>x\<rfloor> = n - 1" by (rule floor_unique)
    have "1 / 2 < x - of_int (n - 1)" using a(2) by simp
    then show ?thesis by (simp add: round_ties_even_def f Let_def)
  qed
qed

lemma exponent_eqI:
  assumes "2 powi e \<le> \<bar>x\<bar>" "\<bar>x\<bar> < 2 powi (e + 1)" "- 1022 \<le> e"
  shows "exponent x = e"
proof -
  have "(0 :: real) < 2 powi e" by simp
  then have pos: "0 < \<bar>x\<bar>" using assms(1) by linarith
  have q: "(2 :: real) powr real_of_int e = 2 powi e"
    "(2 :: real) powr real_of_int (e + 1) = 2 powi (e + 1)"
    by (rule powr_real_of_int'; simp)+
  have "(\<lfloor>log 2 \<bar>x\<bar>\<rfloor> = e) =
      (2 powr real_of_int e \<le> \<bar>x\<bar> \<and> \<bar>x\<bar> < 2 powr real_of_int (e + 1))"
    by (rule floor_log_eq_powr_iff [OF pos]) simp
  then have "\<lfloor>log 2 \<bar>x\<bar>\<rfloor> = e" using assms(1,2) unfolding q by blast
  then show ?thesis using assms(3) by (simp add: exponent_def)
qed

lemma round_ties_even_tie:
  assumes "even n" "\<bar>x - of_int n\<bar> = 1 / 2"
  shows "round_ties_even x = n"
proof (cases "of_int n \<le> x")
  case True
  then have x: "x = of_int n + 1 / 2" using assms(2) by simp
  have f: "\<lfloor>x\<rfloor> = n" by (rule floor_unique) (simp_all add: x)
  show ?thesis using assms(1) by (simp add: round_ties_even_def f Let_def x)
next
  case False
  then have x: "x = of_int (n - 1) + 1 / 2" using assms(2) by simp
  have f: "\<lfloor>x\<rfloor> = n - 1" by (rule floor_unique) (simp_all add: x)
  have "x - of_int (n - 1) = 1 / 2" by (simp add: x)
  then show ?thesis using assms(1) by (simp add: round_ties_even_def f Let_def)
qed

lemma binary64_round_0: "binary64_round 0 = 0"
  by (simp add: binary64_round_def round_ties_even_def)

text \<open>
  A real in the binade of the doubles \<open>n / 2 ^ k\<close> with \<open>2 ^ 52 \<le> \<bar>n\<bar> < 2 ^ 53\<close> is rounded to one
  of them (up to \<open>k = 1074\<close> they are normal numbers).
\<close>

lemma binary64_round_binade:
  assumes k: "k \<le> 1074" and x: "2 ^ 52 / 2 ^ k \<le> \<bar>x\<bar>" "\<bar>x\<bar> < 2 ^ 53 / 2 ^ k"
  shows "binary64_round x = of_int (round_ties_even (x * 2 ^ k)) / 2 ^ k"
proof -
  have m: "(2 :: real) powi (- int k) = 1 / 2 ^ k"
    by (simp add: power_int_minus inverse_eq_divide)
  have p: "(2 :: real) powi (52 - int k) = 2 ^ 52 / 2 ^ k"
    "(2 :: real) powi (52 - int k + 1) = 2 ^ 53 / 2 ^ k"
    "(2 :: real) powi (52 - int k - 52) = 1 / 2 ^ k"
    by (simp_all add: power_int_diff power_int_add m)
  have "exponent x = 52 - int k"
  proof (rule exponent_eqI)
    show "2 powi (52 - int k) \<le> \<bar>x\<bar>" unfolding p by (fact x(1))
    show "\<bar>x\<bar> < 2 powi (52 - int k + 1)" unfolding p by (fact x(2))
    show "- 1022 \<le> 52 - int k" using k by simp
  qed
  then show ?thesis by (simp only: binary64_round_def Let_def p) simp
qed

lemma binary64_round_half:
  assumes k: "k \<le> 1074" and n: "2 ^ 52 < \<bar>n\<bar>" "\<bar>n\<bar> < 2 ^ 53"
    and x: "\<bar>x - of_int n / 2 ^ k\<bar> \<le> 1 / 2 ^ (k + 1)"
  shows "binary64_round x = of_int (round_ties_even (x * 2 ^ k)) / 2 ^ k"
proof (rule binary64_round_binade [OF k])
  define u :: real where "u = 1 / 2 ^ k"
  have u: "0 < u" by (simp add: u_def)
  have "2 ^ 52 + 1 \<le> \<bar>n\<bar>" "\<bar>n\<bar> \<le> 2 ^ 53 - 1" using n by simp_all
  then have "real_of_int (2 ^ 52 + 1) \<le> real_of_int \<bar>n\<bar>"
    "real_of_int \<bar>n\<bar> \<le> real_of_int (2 ^ 53 - 1)"
    by (simp_all only: of_int_le_iff)
  then have n1: "2 ^ 52 + 1 \<le> \<bar>real_of_int n\<bar>" "\<bar>real_of_int n\<bar> \<le> 2 ^ 53 - 1"
    by simp_all
  have a: "\<bar>of_int n / 2 ^ k\<bar> = \<bar>real_of_int n\<bar> * u" by (simp add: abs_divide u_def)
  have lo: "(2 ^ 52 + 1) * u \<le> \<bar>of_int n / 2 ^ k\<bar>"
    and hi: "\<bar>of_int n / 2 ^ k\<bar> \<le> (2 ^ 53 - 1) * u"
    unfolding a using n1 u by (simp_all only: mult_le_cancel_right_pos)
  have h: "1 / (2 :: real) ^ (k + 1) = u / 2" by (simp add: u_def)
  have "\<bar>of_int n / 2 ^ k\<bar> - u / 2 \<le> \<bar>x\<bar>" "\<bar>x\<bar> \<le> \<bar>of_int n / 2 ^ k\<bar> + u / 2"
    using x unfolding h by linarith+
  then have "(2 ^ 52 + 1) * u - u / 2 \<le> \<bar>x\<bar>" "\<bar>x\<bar> \<le> (2 ^ 53 - 1) * u + u / 2"
    using lo hi by linarith+
  then have "2 ^ 52 * u \<le> \<bar>x\<bar>" "\<bar>x\<bar> < 2 ^ 53 * u"
    using u by (simp_all add: algebra_simps)
  then show "2 ^ 52 / 2 ^ k \<le> \<bar>x\<bar>" "\<bar>x\<bar> < 2 ^ 53 / 2 ^ k"
    by (simp_all add: u_def)
qed

lemma scaled_diff: "\<bar>x * 2 ^ k - of_int n\<bar> = \<bar>x - of_int n / 2 ^ k\<bar> * 2 ^ k" for x :: real
proof -
  have "x * 2 ^ k - of_int n = (x - of_int n / 2 ^ k) * 2 ^ k" by (simp add: field_simps)
  then show ?thesis by (simp add: abs_mult)
qed

text \<open>A real within half a unit in the last place of a double is rounded to it.\<close>

lemma binary64_round_near:
  assumes k: "k \<le> 1074" and n: "2 ^ 52 < \<bar>n\<bar>" "\<bar>n\<bar> < 2 ^ 53"
    and x: "\<bar>x - of_int n / 2 ^ k\<bar> < 1 / 2 ^ (k + 1)"
  shows "binary64_round x = of_int n / 2 ^ k"
proof -
  have "\<bar>x - of_int n / 2 ^ k\<bar> * 2 ^ k < 1 / 2 ^ (k + 1) * 2 ^ k"
    using x by (simp only: mult_strict_right_mono zero_less_power zero_less_numeral)
  then have "\<bar>x * 2 ^ k - of_int n\<bar> < 1 / 2" by (simp add: scaled_diff)
  then have "round_ties_even (x * 2 ^ k) = n" by (rule round_ties_even_eqI)
  moreover have "\<bar>x - of_int n / 2 ^ k\<bar> \<le> 1 / 2 ^ (k + 1)" using x by simp
  ultimately show ?thesis using binary64_round_half [OF k n] by simp
qed

text \<open>A real half way between two doubles is rounded to the one with the even significand.\<close>

lemma binary64_round_tie:
  assumes k: "k \<le> 1074" and n: "2 ^ 52 < \<bar>n\<bar>" "\<bar>n\<bar> < 2 ^ 53" "even n"
    and x: "\<bar>x - of_int n / 2 ^ k\<bar> = 1 / 2 ^ (k + 1)"
  shows "binary64_round x = of_int n / 2 ^ k"
proof -
  have "\<bar>x * 2 ^ k - of_int n\<bar> = 1 / 2" by (simp add: scaled_diff x)
  then have "round_ties_even (x * 2 ^ k) = n" using n(3) by (intro round_ties_even_tie)
  moreover have "\<bar>x - of_int n / 2 ^ k\<bar> \<le> 1 / 2 ^ (k + 1)" using x by simp
  ultimately show ?thesis using binary64_round_half [OF k n(1,2)] by simp
qed

text \<open>A double is rounded to itself.\<close>

lemma binary64_round_double:
  assumes k: "k \<le> 1074" and n: "2 ^ 52 \<le> \<bar>n\<bar>" "\<bar>n\<bar> < 2 ^ 53"
  shows "binary64_round (of_int n / 2 ^ k) = of_int n / 2 ^ k"
proof -
  have "real_of_int (2 ^ 52) \<le> real_of_int \<bar>n\<bar>" "real_of_int \<bar>n\<bar> < real_of_int (2 ^ 53)"
    using n by (simp_all only: of_int_le_iff of_int_less_iff)
  then have n1: "2 ^ 52 \<le> \<bar>real_of_int n\<bar>" "\<bar>real_of_int n\<bar> < 2 ^ 53"
    by simp_all
  have "binary64_round (of_int n / 2 ^ k) =
      of_int (round_ties_even (of_int n / 2 ^ k * 2 ^ k)) / 2 ^ k"
    using n1 by (intro binary64_round_binade [OF k]) (simp_all add: abs_divide divide_le_cancel divide_less_cancel)
  moreover have "round_ties_even (of_int n / 2 ^ k * 2 ^ k) = n"
    by (intro round_ties_even_eqI) simp
  ultimately show ?thesis by simp
qed

lemma binary64_round_1: "binary64_round 1 = 1"
  using binary64_round_double [of 52 "2 ^ 52"] by simp

text \<open>The reals from -1 to just below the middle of -1 and the next double are rounded to -1.\<close>

lemma binary64_round_near_minus_one:
  assumes "- 1 \<le> y" "y < - 1 + 1 / 2 ^ 54"
  shows "binary64_round y = - 1"
proof (cases "y = - 1")
  case True
  then show ?thesis using binary64_round_double [of 52 "- (2 ^ 52)"] by simp
next
  case False
  then have y: "- 1 < y" using assms(1) by simp
  have "binary64_round y = of_int (round_ties_even (y * 2 ^ 53)) / 2 ^ 53"
    using y assms(2) by (intro binary64_round_binade) simp_all
  moreover have "round_ties_even (y * 2 ^ 53) = - (2 ^ 53)"
  proof (rule round_ties_even_eqI)
    have "y * 2 ^ 53 - of_int (- (2 ^ 53)) = (y + 1) * 2 ^ 53" by (simp add: algebra_simps)
    moreover have "0 < (y + 1) * 2 ^ 53" "(y + 1) * 2 ^ 53 < 1 / 2"
      using y assms(2) by simp_all
    ultimately show "\<bar>y * 2 ^ 53 - of_int (- (2 ^ 53))\<bar> < 1 / 2" by simp
  qed
  ultimately show ?thesis by simp
qed

lemma zero_one_exact_binary64: "zero_one_exact binary64"
  by (simp add: zero_one_exact_def binary64_def binary64_round_0 binary64_round_1 atan2_def)

subsection \<open>Sine and cosine by their Taylor polynomials\<close>

text \<open>
  The Taylor polynomial of the terms of degree below \<open>n\<close> is within \<open>\<bar>x\<bar>\<^sup>n / n!\<close> of the sine, and
  of the cosine.
\<close>

lemma sin_taylor_bound: "\<bar>sin x - (\<Sum>m<n. sin_coeff m * x ^ m)\<bar> \<le> \<bar>x\<bar> ^ n / fact n"
  using Maclaurin_sin_bound [of x n] by (simp add: field_simps)

lemma cos_taylor_bound: "\<bar>cos x - (\<Sum>m<n. cos_coeff m * x ^ m)\<bar> \<le> \<bar>x\<bar> ^ n / fact n"
proof -
  obtain t where t:
    "cos x = (\<Sum>m<n. cos_coeff m * x ^ m) + cos (t + 1 / 2 * real n * pi) / fact n * x ^ n"
    using Maclaurin_cos_expansion [of x n] by blast
  have "\<bar>cos x - (\<Sum>m<n. cos_coeff m * x ^ m)\<bar> =
      \<bar>cos (t + 1 / 2 * real n * pi)\<bar> * (\<bar>x\<bar> ^ n / fact n)"
    unfolding t by (simp add: abs_mult power_abs abs_divide)
  also have "\<dots> \<le> 1 * (\<bar>x\<bar> ^ n / fact n)"
    by (intro mult_right_mono abs_cos_le_one) simp
  finally show ?thesis by simp
qed

lemma sin_near:
  assumes "\<bar>(\<Sum>m<N. sin_coeff m * x ^ m) - y\<bar> + \<bar>x\<bar> ^ N / fact N < d"
  shows "\<bar>sin x - y\<bar> < d"
  using sin_taylor_bound [of x N] assms by linarith

lemma cos_near:
  assumes "\<bar>(\<Sum>m<N. cos_coeff m * x ^ m) - y\<bar> + \<bar>x\<bar> ^ N / fact N < d"
  shows "\<bar>cos x - y\<bar> < d"
  using cos_taylor_bound [of x N] assms by linarith

lemma sin_below:
  assumes "(\<Sum>m<N. sin_coeff m * x ^ m) + \<bar>x\<bar> ^ N / fact N < b"
  shows "sin x < b"
  using sin_taylor_bound [of x N] assms by linarith

lemma sin_poly_15:
  "(\<Sum>m<15. sin_coeff m * x ^ m) =
     x - x ^ 3 / 6 + x ^ 5 / 120 - x ^ 7 / 5040 + x ^ 9 / 362880 - x ^ 11 / 39916800
     + x ^ 13 / 6227020800"
  by (simp add: lessThan_nat_numeral sin_coeff_def fact_numeral)

lemma sin_poly_23:
  "(\<Sum>m<23. sin_coeff m * x ^ m) =
     x - x ^ 3 / 6 + x ^ 5 / 120 - x ^ 7 / 5040 + x ^ 9 / 362880 - x ^ 11 / 39916800
     + x ^ 13 / 6227020800 - x ^ 15 / 1307674368000 + x ^ 17 / 355687428096000
     - x ^ 19 / 121645100408832000 + x ^ 21 / 51090942171709440000"
  by (simp add: lessThan_nat_numeral sin_coeff_def fact_numeral)

lemma cos_poly_14:
  "(\<Sum>m<14. cos_coeff m * x ^ m) =
     1 - x ^ 2 / 2 + x ^ 4 / 24 - x ^ 6 / 720 + x ^ 8 / 40320 - x ^ 10 / 3628800
     + x ^ 12 / 479001600"
  by (simp add: lessThan_nat_numeral cos_coeff_def fact_numeral)

subsection \<open>Two nearly antipodal points, in binary64\<close>

text \<open>
  The coordinates (17.7194, 45.3558) and (-17.7194, -134.6442), as the doubles that these
  decimals denote. Every step of \<^verbatim>\<open>calculateDistance\<close> is evaluated: the operations on
  doubles by exact rational arithmetic, the sine and the cosine by a Taylor polynomial with a
  bound on the remainder that decides the rounding. The difference of the longitudes is half
  way between two doubles and is rounded to -180; the computed \<^verbatim>\<open>a\<close> is the double after 1,
  \<open>1 + 2\<^sup>-\<^sup>5\<^sup>2\<close>, printed as 1.0000000000000002.
\<close>

lemma haversine_a_binary64:
  "haversine_a binary64 (binary64_round 17.7194) (binary64_round 45.3558)
     (binary64_round (- 17.7194)) (binary64_round (- 134.6442)) = 4503599627370497 / 2 ^ 52"
proof -
  have lat1: "binary64_round 17.7194 = (4987567702326798 / 2 ^ 48)"
    using binary64_round_near [of 48 "4987567702326798" "17.7194"] by simp
  have lng1: "binary64_round 45.3558 = (6383261374346586 / 2 ^ 47)"
    using binary64_round_near [of 47 "6383261374346586" "45.3558"] by simp
  have lat2: "binary64_round (- 17.7194) = (- 4987567702326798 / 2 ^ 48)"
    using binary64_round_near [of 48 "- 4987567702326798" "- 17.7194"] by simp
  have lng2: "binary64_round (- 134.6442) = (- 4737371632403114 / 2 ^ 45)"
    using binary64_round_near [of 45 "- 4737371632403114" "- 134.6442"] by simp
  have k: "fdiv binary64 (Math_PI binary64) 180 = (5030569068109113 / 2 ^ 58)"
    using binary64_round_near [of 58 "5030569068109113" "176855943800711 / 10133099161583616"]
    by (simp add: fdiv_def binary64_def)
  have dlat0:
    "fsub binary64 (- 4987567702326798 / 2 ^ 48) (4987567702326798 / 2 ^ 48) =
       (- 4987567702326798 / 2 ^ 47)"
    using binary64_round_double [of 47 "- 4987567702326798"]
    by (simp add: fsub_def binary64_def)
  have dlng0:
    "fsub binary64 (- 4737371632403114 / 2 ^ 45) (6383261374346586 / 2 ^ 47) =
       (- 6333186975989760 / 2 ^ 45)"
    using binary64_round_tie [of 45 "- 6333186975989760" "- 12666373951979521 / 70368744177664"]
    by (simp add: fsub_def binary64_def)
  have dlat:
    "fmul binary64 (- 4987567702326798 / 2 ^ 47) (5030569068109113 / 2 ^ 58) =
       (- 5571166596590789 / 2 ^ 53)"
    using binary64_round_near
      [of 53 "- 5571166596590789"
         "- 12545151904212615060494123955087 / 20282409603651670423947251286016"]
    by (simp add: fmul_def binary64_def)
  have dlng:
    "fmul binary64 (- 6333186975989760 / 2 ^ 45) (5030569068109113 / 2 ^ 58) =
       (- 7074237752028440 / 2 ^ 51)"
    using binary64_round_near
      [of 51 "- 7074237752028440"
         "- 226375608064910085 / 72057594037927936"]
    by (simp add: fmul_def binary64_def)
  have h1: "fdiv binary64 (- 5571166596590789 / 2 ^ 53) 2 = (- 5571166596590789 / 2 ^ 54)"
    using binary64_round_double [of 54 "- 5571166596590789"]
    by (simp add: fdiv_def binary64_def)
  have h2: "fdiv binary64 (- 7074237752028440 / 2 ^ 51) 2 = (- 7074237752028440 / 2 ^ 52)"
    using binary64_round_double [of 52 "- 7074237752028440"]
    by (simp add: fdiv_def binary64_def)
  have s1_near:
    "\<bar>sin ((- 5571166596590789 / 2 ^ 54) :: real) - of_int (- 5482783226125595) / 2 ^ 54\<bar>
       < 1 / 2 ^ (54 + 1)"
    by (rule sin_near [where N = 15], simp only: sin_poly_15)
      (simp add: power_divide fact_numeral)
  have s1: "Math_sin binary64 (- 5571166596590789 / 2 ^ 54) = (- 5482783226125595 / 2 ^ 54)"
    using binary64_round_near [OF _ _ _ s1_near] by (simp add: binary64_def)
  have s2_below: "sin ((- 7074237752028440 / 2 ^ 52) :: real) < - 1 + 1 / 2 ^ 54"
    by (rule sin_below [where N = 23], simp only: sin_poly_23)
      (simp add: power_divide fact_numeral)
  have s2: "Math_sin binary64 (- 7074237752028440 / 2 ^ 52) = - 1"
    using binary64_round_near_minus_one [OF sin_ge_minus_one s2_below] by (simp add: binary64_def)
  have r1:
    "fmul binary64 (4987567702326798 / 2 ^ 48) (5030569068109113 / 2 ^ 58) =
       (5571166596590789 / 2 ^ 54)"
    using binary64_round_near
      [of 54 "5571166596590789"
         "12545151904212615060494123955087 / 40564819207303340847894502572032"]
    by (simp add: fmul_def binary64_def)
  have r2:
    "fmul binary64 (- 4987567702326798 / 2 ^ 48) (5030569068109113 / 2 ^ 58) =
       (- 5571166596590789 / 2 ^ 54)"
    using binary64_round_near
      [of 54 "- 5571166596590789"
         "- 12545151904212615060494123955087 / 40564819207303340847894502572032"]
    by (simp add: fmul_def binary64_def)
  have c1_near:
    "\<bar>cos ((5571166596590789 / 2 ^ 54) :: real) - of_int (8579884057400522) / 2 ^ 53\<bar>
       < 1 / 2 ^ (53 + 1)"
    by (rule cos_near [where N = 14], simp only: cos_poly_14)
      (simp add: power_divide fact_numeral)
  have c1: "Math_cos binary64 (5571166596590789 / 2 ^ 54) = (8579884057400522 / 2 ^ 53)"
    using binary64_round_near [OF _ _ _ c1_near] by (simp add: binary64_def)
  have c2: "Math_cos binary64 (- 5571166596590789 / 2 ^ 54) = (8579884057400522 / 2 ^ 53)"
    using c1 by (simp add: binary64_def)
  have m1:
    "fmul binary64 (- 5482783226125595 / 2 ^ 54) (- 5482783226125595 / 2 ^ 54) =
       (6674863307561771 / 2 ^ 56)"
    using binary64_round_near
      [of 56 "6674863307561771"
         "30060911904684187394554714104025 / 324518553658426726783156020576256"]
    by (simp add: fmul_def binary64_def)
  have m2:
    "fmul binary64 (8579884057400522 / 2 ^ 53) (8579884057400522 / 2 ^ 53) =
       (8172841341295772 / 2 ^ 53)"
    using binary64_round_near
      [of 53 "8172841341295772"
         "18403602609608910973428981468121 / 20282409603651670423947251286016"]
    by (simp add: fmul_def binary64_def)
  have m3: "fmul binary64 (8172841341295772 / 2 ^ 53) (- 1) = (- 8172841341295772 / 2 ^ 53)"
    using binary64_round_double [of 53 "- 8172841341295772"]
    by (simp add: fmul_def binary64_def)
  have m4: "fmul binary64 (- 8172841341295772 / 2 ^ 53) (- 1) = (8172841341295772 / 2 ^ 53)"
    using binary64_round_double [of 53 "8172841341295772"]
    by (simp add: fmul_def binary64_def)
  have a:
    "fadd binary64 (6674863307561771 / 2 ^ 56) (8172841341295772 / 2 ^ 53) =
       (4503599627370497 / 2 ^ 52)"
    using binary64_round_near [of 52 "4503599627370497" "72057594037927947 / 72057594037927936"]
    by (simp add: fadd_def binary64_def)
  show ?thesis
    unfolding haversine_a_def Let_def toRadians_def lat1 lng1 lat2 lng2
      k dlat0 dlng0 dlat dlng h1 h2 s1 s2 r1 r2 c1 c2 m1 m2 m3 m4 a
    by (rule refl)
qed

lemma one_minus_a_binary64:
  "fsub binary64 1
     (haversine_a binary64 (binary64_round 17.7194) (binary64_round 45.3558)
        (binary64_round (- 17.7194)) (binary64_round (- 134.6442))) < 0"
proof -
  have "fsub binary64 1 (4503599627370497 / 2 ^ 52) = - 1 / 2 ^ 52"
    using binary64_round_double [of 104 "- (2 ^ 52)"] by (simp add: fsub_def binary64_def)
  then show ?thesis unfolding haversine_a_binary64 by simp
qed

subsection \<open>The missing clamp\<close>

text \<open>
  Claim C2 (the code departs from it). The claim: for every pair of coordinates
  \<^verbatim>\<open>calculateDistance\<close> returns the haversine great-circle distance, the value of
  \<open>2 * atan2 (sqrt x) (sqrt (1 - x)) * 6371\<close>. That value is a distance for every pair: it
  lies between 0 and \<open>6371 * pi\<close>, and the code returns it when nothing is rounded. But the
  code does not clamp \<^verbatim>\<open>a\<close>: whenever rounding makes the computed \<^verbatim>\<open>1 - a\<close> negative,
  \<^verbatim>\<open>Math.sqrt(1 - a)\<close> is NaN and the code returns NaN, which is no distance.
\<close>

theorem calculateDistance_NaN_where_formula_is_a_distance:
  assumes "fsub M 1 (haversine_a M lat1 lng1 lat2 lng2) < 0"
  shows "calculateDistance M lat1 lng1 lat2 lng2 = NaN \<and>
         calculateDistance exact_math lat1 lng1 lat2 lng2 =
           Num (spec_distanceKm lat1 lng1 lat2 lng2) \<and>
         0 \<le> spec_distanceKm lat1 lng1 lat2 lng2 \<and>
         spec_distanceKm lat1 lng1 lat2 lng2 \<le> 6371 * pi"
  using calculateDistance_NaN [OF assms] calculateDistance_exact [of lat1 lng1 lat2 lng2]
    spec_distanceKm_nonneg [of lat1 lng1 lat2 lng2] spec_distanceKm_le [of lat1 lng1 lat2 lng2]
  by simp

text \<open>
  In binary64: \<^verbatim>\<open>calculateDistance(17.7194, 45.3558, -17.7194, -134.6442)\<close> is NaN.
\<close>

theorem calculateDistance_NaN_where_formula_is_a_distance_witness:
  "fsub binary64 1
     (haversine_a binary64 (binary64_round 17.7194) (binary64_round 45.3558)
       (binary64_round (- 17.7194)) (binary64_round (- 134.6442))) < 0 \<and>
   calculateDistance binary64 (binary64_round 17.7194) (binary64_round 45.3558)
       (binary64_round (- 17.7194)) (binary64_round (- 134.6442)) = NaN \<and>
   calculateDistance exact_math (binary64_round 17.7194) (binary64_round 45.3558)
       (binary64_round (- 17.7194)) (binary64_round (- 134.6442)) =
     Num (spec_distanceKm (binary64_round 17.7194) (binary64_round 45.3558)
       (binary64_round (- 17.7194)) (binary64_round (- 134.6442))) \<and>
   0 \<le> spec_distanceKm (binary64_round 17.7194) (binary64_round 45.3558)
       (binary64_round (- 17.7194)) (binary64_round (- 134.6442)) \<and>
   spec_distanceKm (binary64_round 17.7194) (binary64_round 45.3558)
       (binary64_round (- 17.7194)) (binary64_round (- 134.6442)) \<le> 6371 * pi"
  using calculateDistance_NaN_where_formula_is_a_distance [OF one_minus_a_binary64]
    one_minus_a_binary64
  by blast

text \<open>
  Claim C9 (the code departs from it). The claim: for every pair of coordinates the distance is
  symmetric, 0 from a point to itself, and never negative. The distance of a point to itself
  is computed as 0 (lemma \<open>calculateDistance_same\<close>). But for a pair for which the computed
  \<^verbatim>\<open>1 - a\<close> is negative the result is NaN, and NaN is neither at least 0 nor equal to the
  result for the swapped pair: \<^verbatim>\<open>0 <= NaN\<close> and \<^verbatim>\<open>NaN === NaN\<close> are false.
\<close>

theorem calculateDistance_NaN_not_nonneg_nor_symmetric:
  assumes "fsub M 1 (haversine_a M lat1 lng1 lat2 lng2) < 0"
  shows "\<not> js_le (Num 0) (calculateDistance M lat1 lng1 lat2 lng2) \<and>
         \<not> js_eq (calculateDistance M lat1 lng1 lat2 lng2)
                 (calculateDistance M lat2 lng2 lat1 lng1)"
  using calculateDistance_NaN [OF assms] by (simp add: js_le_def js_eq_def)

text \<open>In binary64, for the same two points.\<close>

theorem calculateDistance_NaN_not_nonneg_nor_symmetric_witness:
  "fsub binary64 1
     (haversine_a binary64 (binary64_round 17.7194) (binary64_round 45.3558)
       (binary64_round (- 17.7194)) (binary64_round (- 134.6442))) < 0 \<and>
   \<not> js_le (Num 0)
     (calculateDistance binary64 (binary64_round 17.7194) (binary64_round 45.3558)
       (binary64_round (- 17.7194)) (binary64_round (- 134.6442))) \<and>
   \<not> js_eq
     (calculateDistance binary64 (binary64_round 17.7194) (binary64_round 45.3558)
       (binary64_round (- 17.7194)) (binary64_round (- 134.6442)))
     (calculateDistance binary64 (binary64_round (- 17.7194)) (binary64_round (- 134.6442))
       (binary64_round 17.7194) (binary64_round 45.3558))"
  using calculateDistance_NaN_not_nonneg_nor_symmetric [OF one_minus_a_binary64]
    one_minus_a_binary64
  by blast

section \<open>The client registry\<close>

subsection \<open>Proximity selection\<close>

lemma findClients_loop_acc:
  "findClients_loop M lat lng r clients acc = acc @ findClients_loop M lat lng r clients []"
proof (induction clients arbitrary: acc)
  case Nil
  show ?case by simp
next
  case (Cons p clients)
  obtain cid c where p: "p = (cid, c)" by (cases p)
  show ?case
    unfolding p findClients_loop.simps
    by (subst Cons.IH, subst (2) Cons.IH) (simp add: Let_def)
qed

text \<open>
  What the selection returns: the entries, in registry order, whose latitude and longitude are
  both truthy (set and not 0), whose role is \<^verbatim>\<open>community\<close> and whose computed distance to
  the event is a number that is at most the radius.
\<close>

lemma findClientsWithinRadius_filter:
  "findClientsWithinRadius M clients lat lng r =
     map (\<lambda>(cid, c). \<lparr>nearby_id = cid, nearby_lat = the (client_lat c),
                       nearby_lng = the (client_lng c)\<rparr>)
       (filter (\<lambda>(cid, c). truthy_num (client_lat c) \<and> truthy_num (client_lng c) \<and>
                  client_role c = Some ''community'' \<and>
                  js_le (calculateDistance M lat lng (the (client_lat c)) (the (client_lng c)))
                    (Num r))
          clients)"
  unfolding findClientsWithinRadius_def
proof (induction clients)
  case Nil
  show ?case by simp
next
  case (Cons p clients)
  obtain cid c where p: "p = (cid, c)" by (cases p)
  show ?case
    unfolding p findClients_loop.simps
    by (subst findClients_loop_acc) (simp add: Cons.IH Let_def)
qed

lemma findClientsWithinRadius_ids:
  "nearby_id ` set (findClientsWithinRadius M clients lat lng r) =
     {cid. \<exists>c. (cid, c) \<in> set clients \<and> truthy_num (client_lat c) \<and>
                  truthy_num (client_lng c) \<and> client_role c = Some ''community'' \<and>
                  js_le (calculateDistance M lat lng (the (client_lat c)) (the (client_lng c)))
                    (Num r)}"
  unfolding findClientsWithinRadius_filter by (auto simp: image_iff)

text \<open>The handlers of the registry keep its keys distinct, as a \<^verbatim>\<open>Map\<close> does.\<close>

lemma connectedClients_sendToClient [simp]:
  "connectedClients (sendToClient i m s) = connectedClients s"
  by (simp add: sendToClient_def split: option.splits)

lemma registry_keys_distinct:
  assumes "distinct (map fst (connectedClients s))"
  shows "distinct (map fst (connectedClients (ws_onConnection c w s)))"
    and "distinct (map fst (connectedClients (handleWebSocketMessage c msg p s)))"
    and "distinct (map fst (connectedClients (ws_socketNotOpen c s)))"
    and "distinct (map fst (connectedClients (ws_onClose c s)))"
  using assms
  by (simp_all add: ws_onConnection_def handleWebSocketMessage_def ws_socketNotOpen_def
      ws_onClose_def distinct_update distinct_delete distinct_map_entry
      split: option.splits ws_message.splits)

lemma greenwich_registry_eq:
  "connectedClients greenwich_registry =
     [(''c1'', \<lparr>client_socketOpen = True, client_userId = None,
               client_role = Some ''community'', client_lat = Some 51.5, client_lng = Some 0\<rparr>)]"
  by (simp add: greenwich_registry_def handleWebSocketMessage_def ws_onConnection_def
      sendToClient_def)

text \<open>
  Claim C1 (the code departs from it). The claim: the fan-out returns exactly the registered
  \<^verbatim>\<open>community\<close> connections whose recorded coordinate is within the radius, boundary included.
  A community client registers on the prime meridian, at (51.5, 0), and an event is raised at
  the very same place: in every engine the distance is computed as 0, within the 0.2 km
  radius, and the client is not returned, because its longitude 0 is falsy.
  \<^verbatim>\<open>findPointsWithinRadius\<close> of \<^verbatim>\<open>haversine.ts\<close>, on the same point, returns it.
\<close>

theorem findClientsWithinRadius_drops_zero_longitude:
  assumes "zero_one_exact M"
  shows "calculateDistance M 51.5 0 51.5 0 = Num 0 \<and>
         js_le (calculateDistance M 51.5 0 51.5 0) (Num 0.2) \<and>
         findClientsWithinRadius M (connectedClients greenwich_registry) 51.5 0 0.2 = [] \<and>
         findPointsWithinRadius M 51.5 0 [greenwich_point] 0.2 = [greenwich_point]"
  using calculateDistance_same [OF assms, of "51.5" 0]
  by (simp add: js_le_def findClientsWithinRadius_def findPointsWithinRadius_def
      truthy_num_def greenwich_registry_eq greenwich_point_def)

text \<open>In binary64, and in exact arithmetic.\<close>

theorem findClientsWithinRadius_drops_zero_longitude_witness:
  "zero_one_exact binary64 \<and>
   calculateDistance binary64 51.5 0 51.5 0 = Num 0 \<and>
   js_le (calculateDistance binary64 51.5 0 51.5 0) (Num 0.2) \<and>
   findClientsWithinRadius binary64 (connectedClients greenwich_registry) 51.5 0 0.2 = [] \<and>
   findPointsWithinRadius binary64 51.5 0 [greenwich_point] 0.2 = [greenwich_point] \<and>
   zero_one_exact exact_math \<and>
   calculateDistance exact_math 51.5 0 51.5 0 = Num 0 \<and>
   js_le (calculateDistance exact_math 51.5 0 51.5 0) (Num 0.2) \<and>
   findClientsWithinRadius exact_math (connectedClients greenwich_registry) 51.5 0 0.2 = [] \<and>
   findPointsWithinRadius exact_math 51.5 0 [greenwich_point] 0.2 = [greenwich_point]"
  using findClientsWithinRadius_drops_zero_longitude [OF zero_one_exact_binary64]
    findClientsWithinRadius_drops_zero_longitude [OF zero_one_exact_exact_math]
    zero_one_exact_binary64 zero_one_exact_exact_math
  by blast

text \<open>
  Claim C10. A registered client, or a push subscription, whose recorded latitude or longitude
  is exactly 0 is never among the recipients, whatever the event, the radius and its distance:
  presence of a coordinate is tested by truthiness. (The keys of the registry are distinct: it
  is a \<^verbatim>\<open>Map\<close>.)
\<close>

theorem zero_coordinate_never_selected:
  assumes "distinct (map fst clients)"
  shows "((cid, c) \<in> set clients \<and> (client_lat c = Some 0 \<or> client_lng c = Some 0) \<longrightarrow>
          cid \<notin> nearby_id ` set (findClientsWithinRadius M clients lat lng radiusKm)) \<and>
         (sub \<in> set subs \<and> (sub_lat sub = Some 0 \<or> sub_lng sub = Some 0) \<longrightarrow>
          sub \<notin> set (getPushSubscriptionsNearLocation M subs lat lng radiusKm))"
proof (intro conjI impI)
  assume h: "(cid, c) \<in> set clients \<and> (client_lat c = Some 0 \<or> client_lng c = Some 0)"
  show "cid \<notin> nearby_id ` set (findClientsWithinRadius M clients lat lng radiusKm)"
  proof
    assume "cid \<in> nearby_id ` set (findClientsWithinRadius M clients lat lng radiusKm)"
    then obtain c' where c': "(cid, c') \<in> set clients" "truthy_num (client_lat c')"
        "truthy_num (client_lng c')"
      unfolding findClientsWithinRadius_ids by blast
    have "c' = c" using assms c'(1) h by (meson eq_key_imp_eq_value)
    with c' h show False by (auto simp: truthy_num_def)
  qed
next
  assume "sub \<in> set subs \<and> (sub_lat sub = Some 0 \<or> sub_lng sub = Some 0)"
  then show "sub \<notin> set (getPushSubscriptionsNearLocation M subs lat lng radiusKm)"
    by (auto simp: getPushSubscriptionsNearLocation_def truthy_num_def)
qed

lemma origin_registry_eq: "connectedClients origin_registry = [(''c1'', origin_client)]"
  by (simp add: origin_registry_def origin_client_def handleWebSocketMessage_def
      ws_onConnection_def sendToClient_def)

text \<open>The client and the subscription at (0, 0), an event at (0, 0): distance 0, not selected.\<close>

theorem zero_coordinate_never_selected_witness:
  "distinct (map fst (connectedClients origin_registry)) \<and>
   (''c1'', origin_client) \<in> set (connectedClients origin_registry) \<and>
   client_lat origin_client = Some 0 \<and>
   calculateDistance binary64 0 0 0 0 = Num 0 \<and>
   ''c1'' \<notin> nearby_id `
     set (findClientsWithinRadius binary64 (connectedClients origin_registry) 0 0 0.2) \<and>
   origin_sub \<in> set [origin_sub] \<and> sub_lat origin_sub = Some 0 \<and>
   origin_sub \<notin> set (getPushSubscriptionsNearLocation binary64 [origin_sub] 0 0 0.2)"
proof -
  have d: "distinct (map fst (connectedClients origin_registry))"
    by (simp add: origin_registry_eq)
  have m: "(''c1'', origin_client) \<in> set (connectedClients origin_registry)"
    by (simp add: origin_registry_eq)
  have z: "client_lat origin_client = Some 0" "sub_lat origin_sub = Some 0"
    by (simp_all add: origin_client_def origin_sub_def)
  have s: "origin_sub \<in> set [origin_sub]" by simp
  show ?thesis
    using zero_coordinate_never_selected [OF d, of "''c1''" origin_client binary64 0 0 "0.2"
        origin_sub "[origin_sub]"] d m z s
    by (simp add: calculateDistance_same [OF zero_one_exact_binary64])
qed

subsection \<open>Dispatch over the registry\<close>

lemma ws_live_sendToClient: "ws_live (sendToClient i m s) j = ws_live s j"
  by (simp add: ws_live_def sendToClient_def split: option.splits)

lemma sendToClient_eq:
  "sendToClient i m s = s\<lparr>ws_sent := ws_sent s @ (if ws_live s i then [(i, m)] else [])\<rparr>"
  by (simp add: ws_live_def sendToClient_def split: option.splits)

text \<open>A loop of \<^verbatim>\<open>sendToClient\<close> calls writes to the live recipients, in order, and only
  appends to the log.\<close>

lemma fold_sendToClient:
  "fold (\<lambda>x st. if P x then sendToClient (f x) (g x) st else st) xs s =
     s\<lparr>ws_sent := ws_sent s @
          map (\<lambda>x. (f x, g x)) (filter (\<lambda>x. P x \<and> ws_live s (f x)) xs)\<rparr>"
proof (induction xs arbitrary: s)
  case Nil
  show ?case by simp
next
  case (Cons x xs)
  have live: "\<And>j. ws_live (sendToClient (f x) (g x) s) j = ws_live s j"
    by (rule ws_live_sendToClient)
  show ?case
    by (simp add: Cons.IH live) (simp add: sendToClient_eq)
qed

lemma broadcastToAll_eq:
  "broadcastToAll m s =
     s\<lparr>ws_sent := ws_sent s @
        map (\<lambda>p. (fst p, m)) (filter (\<lambda>p. ws_live s (fst p)) (connectedClients s))\<rparr>"
  using fold_sendToClient [of "\<lambda>p. True" fst "\<lambda>p. m" "connectedClients s" s]
  by (simp add: broadcastToAll_def case_prod_unfold)

lemma notifyAgents_eq:
  "notifyAgents m s =
     s\<lparr>ws_sent := ws_sent s @ map (\<lambda>p. (fst p, m))
         (filter (\<lambda>p. client_role (snd p) = Some ''agent'' \<and> ws_live s (fst p))
            (connectedClients s))\<rparr>"
  using fold_sendToClient [of "\<lambda>p. client_role (snd p) = Some ''agent''" fst "\<lambda>p. m"
      "connectedClients s" s]
  by (simp add: notifyAgents_def case_prod_unfold)

lemma alertFanOut_eq:
  "alertFanOut M lat lng r mk s =
     s\<lparr>ws_sent := ws_sent s @
         map (\<lambda>c. (nearby_id c, mk (calculateDistance M lat lng (nearby_lat c) (nearby_lng c))))
           (filter (\<lambda>c. ws_live s (nearby_id c))
              (findClientsWithinRadius M (connectedClients s) lat lng r))\<rparr>"
  using fold_sendToClient [of "\<lambda>p. True" nearby_id
      "\<lambda>c. mk (calculateDistance M lat lng (nearby_lat c) (nearby_lng c))"
      "findClientsWithinRadius M (connectedClients s) lat lng r" s]
  by (simp add: alertFanOut_def)

text \<open>
  Claim C8, as the code has it. The claim: a send to a failing recipient raises nothing, does
  not stop the delivery to the others, and removes the failing entry from the registry. The
  last part fails: no dispatch touches the registry. Each of the three dispatches
  (\<^verbatim>\<open>broadcastToAll\<close>, \<^verbatim>\<open>notifyAgents\<close>, the fan-out of an alert) returns, leaves
  \<^verbatim>\<open>connectedClients\<close> as it was, and writes one frame to each selected recipient whose socket
  is open, in registry order, skipping the others.
\<close>

theorem dispatch_skips_closed_and_keeps_registry:
  "connectedClients (broadcastToAll m s) = connectedClients s \<and>
   ws_sent (broadcastToAll m s) =
     ws_sent s @ map (\<lambda>p. (fst p, m)) (filter (\<lambda>p. ws_live s (fst p)) (connectedClients s)) \<and>
   connectedClients (notifyAgents m s) = connectedClients s \<and>
   ws_sent (notifyAgents m s) =
     ws_sent s @ map (\<lambda>p. (fst p, m))
       (filter (\<lambda>p. client_role (snd p) = Some ''agent'' \<and> ws_live s (fst p))
          (connectedClients s)) \<and>
   connectedClients (alertFanOut M lat lng r mk s) = connectedClients s \<and>
   ws_sent (alertFanOut M lat lng r mk s) =
     ws_sent s @
       map (\<lambda>c. (nearby_id c, mk (calculateDistance M lat lng (nearby_lat c) (nearby_lng c))))
         (filter (\<lambda>c. ws_live s (nearby_id c))
            (findClientsWithinRadius M (connectedClients s) lat lng r))"
  by (simp add: broadcastToAll_eq notifyAgents_eq alertFanOut_eq)

lemma half_closed_registry_eq:
  "half_closed_registry =
     \<lparr>connectedClients =
        [(''dead'', \<lparr>client_socketOpen = False, client_userId = None,
                    client_role = Some ''community'', client_lat = Some 1, client_lng = Some 1\<rparr>),
         (''live'', \<lparr>client_socketOpen = True, client_userId = None,
                    client_role = Some ''community'', client_lat = Some 1, client_lng = Some 1\<rparr>)],
      ws_sent = [(''dead'', ''connected''), (''live'', ''connected'')]\<rparr>"
  by (simp add: half_closed_registry_def ws_socketNotOpen_def handleWebSocketMessage_def
      ws_onConnection_def sendToClient_def)

text \<open>
  A broadcast over a registry whose first entry has a socket that is not open: the second
  recipient gets the frame, nothing is written to the first, and the entry of the first is
  still registered afterwards.
\<close>

theorem closed_recipient_stays_registered:
  "frames_of ''live'' (ws_sent (broadcastToAll ''alert:updated'' half_closed_registry)) =
     [''connected'', ''alert:updated''] \<and>
   frames_of ''dead'' (ws_sent (broadcastToAll ''alert:updated'' half_closed_registry)) =
     [''connected''] \<and>
   \<not> (''dead'' \<notin> fst ` set (connectedClients
                                 (broadcastToAll ''alert:updated'' half_closed_registry)))"
  by (simp add: broadcastToAll_eq half_closed_registry_eq ws_live_def frames_of_def)

section \<open>The signaling server: relay, rooms and cleanup\<close>

subsection \<open>Writing frames\<close>

lemma rtc_live_sendMessage: "rtc_live (sendMessage i m s) j = rtc_live s j"
  by (simp add: rtc_live_def sendMessage_def split: option.splits)

lemma sendMessage_eq:
  "sendMessage i m s = s\<lparr>outbox := outbox s @ (if rtc_live s i then [(i, m)] else [])\<rparr>"
  by (simp add: rtc_live_def sendMessage_def split: option.splits)

lemma fold_sendMessage:
  "fold (\<lambda>i st. if Some i \<noteq> ex then sendMessage i m st else st) room s =
     s\<lparr>outbox := outbox s @
          map (\<lambda>i. (i, m)) (filter (\<lambda>i. Some i \<noteq> ex \<and> rtc_live s i) room)\<rparr>"
proof (induction room arbitrary: s)
  case Nil
  show ?case by simp
next
  case (Cons x room)
  have live: "\<And>j. rtc_live (sendMessage x m s) j = rtc_live s j"
    by (rule rtc_live_sendMessage)
  show ?case
    by (simp add: Cons.IH live) (simp add: sendMessage_eq)
qed

lemma broadcastToRoom_eq:
  "broadcastToRoom a m ex s =
     s\<lparr>outbox := outbox s @
        map (\<lambda>i. (i, m)) (filter (\<lambda>i. Some i \<noteq> ex \<and> rtc_live s i) (room_of s a))\<rparr>"
  by (simp add: broadcastToRoom_def room_of_def fold_sendMessage split: option.splits)

lemma rtc_live_frame [simp]:
  "rtc_live (s\<lparr>outbox := ob\<rparr>) = rtc_live s"
  "rtc_live (s\<lparr>activeRooms := ar\<rparr>) = rtc_live s"
  by (simp_all add: rtc_live_def fun_eq_iff)

lemma isUser_frame [simp]:
  "isUser (s\<lparr>outbox := ob\<rparr>) = isUser s"
  "isUser (s\<lparr>activeRooms := ar\<rparr>) = isUser s"
  by (simp_all add: isUser_def fun_eq_iff)

lemma room_of_frame [simp]:
  "room_of (s\<lparr>outbox := ob\<rparr>) = room_of s"
  "room_of (s\<lparr>connections := cs\<rparr>) = room_of s"
  by (simp_all add: room_of_def fun_eq_iff)

lemma rtc_liveD: "rtc_live s i \<Longrightarrow> \<exists>k. map_of (connections s) i = Some k"
  by (auto simp: rtc_live_def split: option.splits)

lemma frames_since_append: "outbox s' = outbox s @ xs \<Longrightarrow> frames_since s s' = xs"
  by (simp add: frames_since_def)

lemmas rtc_eval = run_def initial_def onConnection_def handleSignalingMessage_def
  handleJoinCall_def handleLeaveCall_def handleConnectionClose_def broadcastToRoom_def
  sendMessage_def set_add_def truthy_str_def isUser_def Let_def

lemma two_connected_eq:
  "two_connected =
     \<lparr>connections =
        [(''c1'', \<lparr>conn_id = ''c1'', conn_socketOpen = True, conn_role = User,
                  conn_alertId = None, conn_userId = None, isConnected = True\<rparr>),
         (''c2'', \<lparr>conn_id = ''c2'', conn_socketOpen = True, conn_role = User,
                  conn_alertId = None, conn_userId = None, isConnected = True\<rparr>)],
      activeRooms = [],
      outbox = [(''c1'', ConnectionEstablished ''c1''), (''c2'', ConnectionEstablished ''c2'')]\<rparr>"
  by (simp add: two_connected_def rtc_eval)

subsection \<open>Relay\<close>

text \<open>For a frame of a registered connection, \<^verbatim>\<open>handleSignalingMessage\<close> hands each relayed
  kind to its handler.\<close>

lemma handleSignalingMessage_relay:
  assumes "map_of (connections s) fromId = Some k"
  shows "handleSignalingMessage fromId (Relay Offer to d) s = handleOffer fromId to d s"
    and "handleSignalingMessage fromId (Relay Answer to d) s = handleAnswer fromId to d s"
    and "handleSignalingMessage fromId (Relay IceCandidate to d) s =
           handleIceCandidate fromId to d s"
  using assms by (simp_all add: handleSignalingMessage_def)

text \<open>
  Claim C7. A relayed message (\<^verbatim>\<open>offer\<close>, \<^verbatim>\<open>answer\<close>, \<^verbatim>\<open>ice-candidate\<close>) with target \<open>X\<close>
  from the connection \<open>fromId\<close>: if \<open>X\<close> is live (it has an entry and its socket is open) the
  payload \<open>d\<close> is written to \<open>X\<close> and to nobody else, unchanged, with the kind and with
  \<^verbatim>\<open>from\<close> set to the sender, and nothing else of the state changes; if \<open>X\<close> is not live the
  state, log included, is unchanged. The handlers are total: nothing is raised. Identifiers are
  non-empty strings (the guard \<^verbatim>\<open>to && ...\<close> reads an empty \<^verbatim>\<open>to\<close> as absent).
\<close>

theorem relay_delivers_to_live_target_only:
  "(X \<noteq> [] \<and> rtc_live s X \<longrightarrow>
      handleOffer fromId (Some X) d s = s\<lparr>outbox := outbox s @ [(X, Signal Offer d fromId)]\<rparr> \<and>
      handleAnswer fromId (Some X) d s = s\<lparr>outbox := outbox s @ [(X, Signal Answer d fromId)]\<rparr> \<and>
      handleIceCandidate fromId (Some X) d s =
        s\<lparr>outbox := outbox s @ [(X, Signal IceCandidate d fromId)]\<rparr>) \<and>
   (\<not> rtc_live s X \<longrightarrow>
      handleOffer fromId (Some X) d s = s \<and>
      handleAnswer fromId (Some X) d s = s \<and>
      handleIceCandidate fromId (Some X) d s = s)"
  by (simp add: handleOffer_def handleAnswer_def handleIceCandidate_def truthy_str_def
      sendMessage_eq) (auto simp: rtc_live_def)

lemma second_closing_eq:
  "second_closing =
     \<lparr>connections =
        [(''c1'', \<lparr>conn_id = ''c1'', conn_socketOpen = True, conn_role = User,
                  conn_alertId = None, conn_userId = None, isConnected = True\<rparr>),
         (''c2'', \<lparr>conn_id = ''c2'', conn_socketOpen = False, conn_role = User,
                  conn_alertId = None, conn_userId = None, isConnected = True\<rparr>)],
      activeRooms = [],
      outbox = [(''c1'', ConnectionEstablished ''c1''), (''c2'', ConnectionEstablished ''c2'')]\<rparr>"
  by (simp add: second_closing_def two_connected_eq run_def socketNotOpen_def)

text \<open>
  An offer from \<open>c1\<close> to the live \<open>c2\<close>; one to \<open>c9\<close>, which has no entry; and one to \<open>c2\<close>
  when its socket has left the open state.
\<close>

theorem relay_delivers_to_live_target_only_witness:
  "''c2'' \<noteq> [] \<and> rtc_live two_connected ''c2'' \<and>
   handleOffer ''c1'' (Some ''c2'') ''sdp'' two_connected =
     two_connected\<lparr>outbox := outbox two_connected @ [(''c2'', Signal Offer ''sdp'' ''c1'')]\<rparr> \<and>
   \<not> rtc_live two_connected ''c9'' \<and>
   handleOffer ''c1'' (Some ''c9'') ''sdp'' two_connected = two_connected \<and>
   \<not> rtc_live second_closing ''c2'' \<and>
   handleOffer ''c1'' (Some ''c2'') ''sdp'' second_closing = second_closing"
proof -
  have live: "rtc_live two_connected ''c2''" and dead: "\<not> rtc_live two_connected ''c9''"
    by (simp_all add: two_connected_eq rtc_live_def)
  have closing: "\<not> rtc_live second_closing ''c2''"
    by (simp add: second_closing_eq rtc_live_def)
  have ne: "''c2'' \<noteq> []" by simp
  have A: "handleOffer ''c1'' (Some ''c2'') ''sdp'' two_connected =
     two_connected\<lparr>outbox := outbox two_connected @ [(''c2'', Signal Offer ''sdp'' ''c1'')]\<rparr>"
    using relay_delivers_to_live_target_only [of "''c2''" two_connected "''c1''" "''sdp''"]
      ne live by blast
  have B: "handleOffer ''c1'' (Some ''c9'') ''sdp'' two_connected = two_connected"
    using relay_delivers_to_live_target_only [of "''c9''" two_connected "''c1''" "''sdp''"]
      dead by blast
  have C: "handleOffer ''c1'' (Some ''c2'') ''sdp'' second_closing = second_closing"
    using relay_delivers_to_live_target_only [of "''c2''" second_closing "''c1''" "''sdp''"]
      closing by blast
  show ?thesis using ne live dead closing A B C by blast
qed

subsection \<open>Joining a room\<close>

lemma rtc_live_map_entry:
  assumes "\<And>x. conn_socketOpen (f x) = conn_socketOpen x"
  shows "rtc_live (s\<lparr>connections := AList.map_entry c f (connections s)\<rparr>) = rtc_live s"
  by (simp add: rtc_live_def map_of_map_entry assms fun_eq_iff split: option.splits)

lemma isUser_map_entry:
  assumes "map_of (connections s) c = Some k"
  shows "isUser (s\<lparr>connections := AList.map_entry c f (connections s)\<rparr>) =
           (\<lambda>i. if i = c then conn_role (f k) = User else isUser s i)"
  using assms by (simp add: isUser_def map_of_map_entry fun_eq_iff split: option.splits)

lemma join_room_map:
  "map_of (AList.map_entry a f
       (if map_of rooms a = None then AList.update a [] rooms else rooms)) =
     (map_of rooms)(a \<mapsto> f (case map_of rooms a of None \<Rightarrow> [] | Some room \<Rightarrow> room))"
  by (auto simp: map_of_map_entry update_conv' fun_eq_iff split: option.splits)

lemma join_room_of:
  "room_of (s\<lparr>connections := cs, activeRooms := AList.map_entry a f
       (if map_of (activeRooms s) a = None then AList.update a [] (activeRooms s)
        else activeRooms s)\<rparr>) =
     (\<lambda>b. if b = a then f (room_of s a) else room_of s b)"
  by (simp add: room_of_def join_room_map fun_eq_iff)

text \<open>\<^verbatim>\<open>handleJoinCall\<close> for a registered connection, step by step.\<close>

lemma handleJoinCall_unfold:
  assumes "map_of (connections s) c = Some k"
  shows "handleJoinCall c a r u s =
     (let s3 = s\<lparr>connections := AList.map_entry c
                    (\<lambda>x. x\<lparr>conn_alertId := Some a, conn_role := r, conn_userId := u\<rparr>)
                    (connections s),
                  activeRooms := AList.map_entry a (set_add c)
                    (if map_of (activeRooms s) a = None then AList.update a [] (activeRooms s)
                     else activeRooms s)\<rparr>;
          s4 = broadcastToRoom a (UserJoined c r u) (Some c) s3
      in if r = Agent
         then (case find (isUser s4) (room_of s4 a) of
                 None \<Rightarrow> s4
               | Some x \<Rightarrow> if x \<noteq> [] then sendMessage x (AgentAvailable c) s4 else s4)
         else s4)"
  unfolding handleJoinCall_def Let_def using assms
  by (simp add: room_of_def split: option.splits)

text \<open>
  The effect of a join on the three fields: the frames written (a \<^verbatim>\<open>user-joined\<close> to every
  other live member of the room, then, for an agent, an \<^verbatim>\<open>agent-available\<close> to the first
  other member whose role is \<^verbatim>\<open>user\<close>), the rooms, and the entry of the joiner.
\<close>

lemma handleJoinCall_fields:
  assumes "map_of (connections s) c = Some k"
  shows "outbox (handleJoinCall c a r u s) =
     outbox s @
     map (\<lambda>i. (i, UserJoined c r u))
       (filter (\<lambda>i. i \<noteq> c \<and> rtc_live s i) (set_add c (room_of s a))) @
     (if r = Agent
      then (case find (\<lambda>i. i \<noteq> c \<and> isUser s i) (set_add c (room_of s a)) of
              None \<Rightarrow> []
            | Some x \<Rightarrow> if x \<noteq> [] \<and> rtc_live s x then [(x, AgentAvailable c)] else [])
      else [])"
    and "room_of (handleJoinCall c a r u s) =
           (\<lambda>b. if b = a then set_add c (room_of s a) else room_of s b)"
    and "map_of (connections (handleJoinCall c a r u s)) =
           (map_of (connections s))
             (c \<mapsto> k\<lparr>conn_alertId := Some a, conn_role := r, conn_userId := u\<rparr>)"
proof -
  define s3 where "s3 = s\<lparr>connections := AList.map_entry c
                    (\<lambda>x. x\<lparr>conn_alertId := Some a, conn_role := r, conn_userId := u\<rparr>)
                    (connections s),
                  activeRooms := AList.map_entry a (set_add c)
                    (if map_of (activeRooms s) a = None then AList.update a [] (activeRooms s)
                     else activeRooms s)\<rparr>"
  define s4 where "s4 = broadcastToRoom a (UserJoined c r u) (Some c) s3"
  have room3: "room_of s3 = (\<lambda>b. if b = a then set_add c (room_of s a) else room_of s b)"
    unfolding s3_def by (rule join_room_of)
  have live3: "rtc_live s3 = rtc_live s"
    unfolding s3_def by (simp add: rtc_live_map_entry)
  have user3: "isUser s3 = (\<lambda>i. if i = c then r = User else isUser s i)"
    unfolding s3_def by (simp add: isUser_map_entry [OF assms])
  have conn3: "map_of (connections s3) =
           (map_of (connections s))
             (c \<mapsto> k\<lparr>conn_alertId := Some a, conn_role := r, conn_userId := u\<rparr>)"
    unfolding s3_def using assms by (simp add: map_of_map_entry fun_eq_iff)
  have out3: "outbox s3 = outbox s" unfolding s3_def by simp
  have s4: "s4 = s3\<lparr>outbox := outbox s @
        map (\<lambda>i. (i, UserJoined c r u))
          (filter (\<lambda>i. i \<noteq> c \<and> rtc_live s i) (set_add c (room_of s a)))\<rparr>"
    unfolding s4_def broadcastToRoom_eq by (simp add: room3 live3 out3)
  have room4: "room_of s4 = room_of s3" and user4: "isUser s4 = isUser s3"
    and conn4: "connections s4 = connections s3"
    unfolding s4 by simp_all
  have J: "handleJoinCall c a r u s =
      (if r = Agent
         then (case find (isUser s4) (room_of s4 a) of
                 None \<Rightarrow> s4
               | Some x \<Rightarrow> if x \<noteq> [] then sendMessage x (AgentAvailable c) s4 else s4)
         else s4)"
    unfolding handleJoinCall_unfold [OF assms] Let_def s4_def s3_def by simp
  have agent: "r = Agent \<Longrightarrow> isUser s3 = (\<lambda>i. i \<noteq> c \<and> isUser s i)"
    unfolding user3 by (simp add: fun_eq_iff)
  show "outbox (handleJoinCall c a r u s) =
     outbox s @
     map (\<lambda>i. (i, UserJoined c r u))
       (filter (\<lambda>i. i \<noteq> c \<and> rtc_live s i) (set_add c (room_of s a))) @
     (if r = Agent
      then (case find (\<lambda>i. i \<noteq> c \<and> isUser s i) (set_add c (room_of s a)) of
              None \<Rightarrow> []
            | Some x \<Rightarrow> if x \<noteq> [] \<and> rtc_live s x then [(x, AgentAvailable c)] else [])
      else [])"
  proof (cases "r = Agent")
    case True
    show ?thesis
      unfolding J user4 room4 room3 agent [OF True]
      by (simp add: True sendMessage_eq live3 s4 split: option.splits)
  next
    case False
    then show ?thesis unfolding J by (simp add: s4)
  qed
  show "room_of (handleJoinCall c a r u s) =
           (\<lambda>b. if b = a then set_add c (room_of s a) else room_of s b)"
    unfolding J by (simp add: sendMessage_eq room4 room3 split: option.splits)
  show "map_of (connections (handleJoinCall c a r u s)) =
           (map_of (connections s))
             (c \<mapsto> k\<lparr>conn_alertId := Some a, conn_role := r, conn_userId := u\<rparr>)"
    unfolding J by (simp add: sendMessage_eq conn4 conn3 split: option.splits)
qed

lemma handleJoinCall_live:
  assumes "map_of (connections s) c = Some k"
  shows "rtc_live (handleJoinCall c a r u s) = rtc_live s"
  using handleJoinCall_fields(3) [OF assms, of a r u] assms
  by (auto simp: rtc_live_def fun_eq_iff split: option.splits)

lemma handleJoinCall_isUser:
  assumes "map_of (connections s) c = Some k"
  shows "isUser (handleJoinCall c a r u s) = (\<lambda>i. if i = c then r = User else isUser s i)"
  using handleJoinCall_fields(3) [OF assms, of a r u] assms
  by (auto simp: isUser_def fun_eq_iff split: option.splits)

subsection \<open>Leaving a room\<close>

lemma handleLeaveCall_noop:
  "map_of (connections s) c = None \<Longrightarrow> handleLeaveCall c s = s"
  "map_of (connections s) c = Some k \<Longrightarrow> \<not> truthy_str (conn_alertId k) \<Longrightarrow>
     handleLeaveCall c s = s"
  by (simp_all add: handleLeaveCall_def)

lemma leave_room_map:
  "map_of rooms a = Some room \<Longrightarrow>
   map_of (if removeAll c room = []
           then AList.delete a (AList.map_entry a (removeAll c) rooms)
           else AList.map_entry a (removeAll c) rooms) =
     (map_of rooms)(a := if removeAll c room = [] then None else Some (removeAll c room))"
  by (auto simp: map_of_map_entry delete_conv' fun_eq_iff)

text \<open>
  The effect of \<^verbatim>\<open>handleLeaveCall\<close> for a connection whose recorded room is \<open>a\<close>: the
  connection leaves the member set of \<open>a\<close>, the room is deleted when the set becomes empty, and
  every remaining live member gets one \<^verbatim>\<open>user-left\<close>.
\<close>

lemma handleLeaveCall_fields:
  assumes "map_of (connections s) c = Some k" and "conn_alertId k = Some a" and "a \<noteq> []"
  shows "outbox (handleLeaveCall c s) =
           outbox s @ map (\<lambda>i. (i, UserLeft c (conn_role k)))
                        (filter (\<lambda>i. i \<noteq> c \<and> rtc_live s i) (removeAll c (room_of s a)))"
    and "map_of (activeRooms (handleLeaveCall c s)) =
           (map_of (activeRooms s))(a := if removeAll c (room_of s a) = [] then None
                                        else Some (removeAll c (room_of s a)))"
    and "connections (handleLeaveCall c s) = connections s"
proof -
  define s1 where "s1 = (case map_of (activeRooms s) a of
                        None \<Rightarrow> s
                      | Some room \<Rightarrow>
                          s\<lparr>activeRooms :=
                              if removeAll c room = []
                              then AList.delete a (AList.map_entry a (removeAll c) (activeRooms s))
                              else AList.map_entry a (removeAll c) (activeRooms s)\<rparr>)"
  have L: "handleLeaveCall c s = broadcastToRoom a (UserLeft c (conn_role k)) (Some c) s1"
    unfolding handleLeaveCall_def s1_def Let_def using assms
    by (simp add: truthy_str_def split: option.splits)
  have map1: "map_of (activeRooms s1) =
           (map_of (activeRooms s))(a := if removeAll c (room_of s a) = [] then None
                                        else Some (removeAll c (room_of s a)))"
  proof (cases "map_of (activeRooms s) a")
    case None
    then show ?thesis unfolding s1_def by (simp add: room_of_def fun_eq_iff)
  next
    case (Some room)
    then show ?thesis unfolding s1_def using leave_room_map [OF Some, of c]
      by (simp add: room_of_def)
  qed
  have room1: "room_of s1 a = removeAll c (room_of s a)"
    unfolding room_of_def [of s1] map1 by simp
  have rest1: "rtc_live s1 = rtc_live s" "outbox s1 = outbox s" "connections s1 = connections s"
    unfolding s1_def by (simp_all split: option.splits)
  show "outbox (handleLeaveCall c s) =
           outbox s @ map (\<lambda>i. (i, UserLeft c (conn_role k)))
                        (filter (\<lambda>i. i \<noteq> c \<and> rtc_live s i) (removeAll c (room_of s a)))"
    unfolding L broadcastToRoom_eq by (simp add: room1 rest1)
  show "map_of (activeRooms (handleLeaveCall c s)) =
           (map_of (activeRooms s))(a := if removeAll c (room_of s a) = [] then None
                                        else Some (removeAll c (room_of s a)))"
    unfolding L broadcastToRoom_eq by (simp add: map1)
  show "connections (handleLeaveCall c s) = connections s"
    unfolding L broadcastToRoom_eq by (simp add: rest1)
qed

lemma handleLeaveCall_connections: "connections (handleLeaveCall c s) = connections s"
proof (cases "map_of (connections s) c")
  case None
  then show ?thesis by (simp add: handleLeaveCall_noop)
next
  case (Some k)
  show ?thesis
  proof (cases "truthy_str (conn_alertId k)")
    case False
    then show ?thesis using Some by (simp add: handleLeaveCall_noop)
  next
    case True
    then obtain a where "conn_alertId k = Some a" "a \<noteq> []"
      by (auto simp: truthy_str_def split: option.splits)
    then show ?thesis using handleLeaveCall_fields(3) [OF Some] by simp
  qed
qed

text \<open>A second \<^verbatim>\<open>close\<close> or \<^verbatim>\<open>error\<close> event of the same connection finds no entry and does
  nothing: one cleanup pass per connection.\<close>

lemma handleConnectionClose_once:
  "handleConnectionClose c (handleConnectionClose c s) = handleConnectionClose c s"
proof -
  have "map_of (connections (handleConnectionClose c s)) c = None"
    by (simp add: handleConnectionClose_def Let_def handleLeaveCall_connections delete_conv'
        split: option.splits)
  then show ?thesis by (simp add: handleConnectionClose_def [of c "handleConnectionClose c s"])
qed

subsection \<open>The scenarios, evaluated\<close>

lemma two_joined_eq:
  "two_joined =
     \<lparr>connections =
        [(''c1'', \<lparr>conn_id = ''c1'', conn_socketOpen = True, conn_role = User,
                  conn_alertId = Some ''A'', conn_userId = None, isConnected = True\<rparr>),
         (''c2'', \<lparr>conn_id = ''c2'', conn_socketOpen = True, conn_role = User,
                  conn_alertId = Some ''A'', conn_userId = None, isConnected = True\<rparr>)],
      activeRooms = [(''A'', [''c1'', ''c2''])],
      outbox = [(''c1'', ConnectionEstablished ''c1''), (''c2'', ConnectionEstablished ''c2''),
                (''c1'', UserJoined ''c2'' User None)]\<rparr>"
  by (simp add: two_joined_def two_connected_eq rtc_eval)

lemma user_waiting_eq:
  "user_waiting =
     \<lparr>connections =
        [(''c1'', \<lparr>conn_id = ''c1'', conn_socketOpen = True, conn_role = User,
                  conn_alertId = Some ''A'', conn_userId = None, isConnected = True\<rparr>),
         (''c2'', \<lparr>conn_id = ''c2'', conn_socketOpen = True, conn_role = User,
                  conn_alertId = None, conn_userId = None, isConnected = True\<rparr>)],
      activeRooms = [(''A'', [''c1''])],
      outbox = [(''c1'', ConnectionEstablished ''c1''), (''c2'', ConnectionEstablished ''c2'')]\<rparr>"
  by (simp add: user_waiting_def two_connected_eq rtc_eval)

lemma agent_joined_eq:
  "agent_joined =
     \<lparr>connections =
        [(''c1'', \<lparr>conn_id = ''c1'', conn_socketOpen = True, conn_role = User,
                  conn_alertId = Some ''A'', conn_userId = None, isConnected = True\<rparr>),
         (''c2'', \<lparr>conn_id = ''c2'', conn_socketOpen = True, conn_role = Agent,
                  conn_alertId = Some ''A'', conn_userId = None, isConnected = True\<rparr>)],
      activeRooms = [(''A'', [''c1'', ''c2''])],
      outbox = [(''c1'', ConnectionEstablished ''c1''), (''c2'', ConnectionEstablished ''c2''),
                (''c1'', UserJoined ''c2'' Agent None), (''c1'', AgentAvailable ''c2'')]\<rparr>"
  by (simp add: agent_joined_def user_waiting_eq rtc_eval)

lemma user_left_eq:
  "user_left =
     \<lparr>connections =
        [(''c1'', \<lparr>conn_id = ''c1'', conn_socketOpen = True, conn_role = User,
                  conn_alertId = Some ''A'', conn_userId = None, isConnected = True\<rparr>),
         (''c2'', \<lparr>conn_id = ''c2'', conn_socketOpen = True, conn_role = Agent,
                  conn_alertId = Some ''A'', conn_userId = None, isConnected = True\<rparr>)],
      activeRooms = [(''A'', [''c2''])],
      outbox = [(''c1'', ConnectionEstablished ''c1''), (''c2'', ConnectionEstablished ''c2''),
                (''c1'', UserJoined ''c2'' Agent None), (''c1'', AgentAvailable ''c2''),
                (''c2'', UserLeft ''c1'' User)]\<rparr>"
  by (simp add: user_left_def agent_joined_eq rtc_eval)

subsection \<open>Join and leave notifications\<close>

text \<open>
  Two connections join the room \<open>A\<close>, each once. The first gets one \<^verbatim>\<open>user-joined\<close>, about
  the second; the second gets no frame at all, so not exactly one \<^verbatim>\<open>user-joined\<close> about the
  first.
\<close>

theorem second_joiner_gets_no_user_joined:
  "frames_to ''c1'' (frames_since two_connected two_joined) = [UserJoined ''c2'' User None] \<and>
   frames_to ''c2'' (frames_since two_connected two_joined) = [] \<and>
   length (filter is_joined (frames_to ''c2'' (frames_since two_connected two_joined))) \<noteq> 1"
  by (simp add: two_joined_eq two_connected_eq frames_to_def frames_since_def)

text \<open>
  Claim C5, as the code has it. The claim: each of the two gets exactly one \<^verbatim>\<open>user-joined\<close>
  about the other. In the code a join is announced to the members already in the room, so only
  the first joiner is told. For two distinct live connections that join a room that did not
  exist, with a non-empty identifier: the only \<^verbatim>\<open>user-joined\<close> frame written during the two
  joins goes to the first joiner and is about the second (none goes to the second, none is
  about its own recipient); when one of the two then leaves, the only \<^verbatim>\<open>user-left\<close> frame
  written goes to the other and is about the leaver.
\<close>

theorem two_party_join_leave_notifications:
  assumes "c1 \<noteq> c2" and "rtc_live s c1" and "rtc_live s c2"
    and "map_of (activeRooms s) a = None" and "a \<noteq> []"
  shows "(let s2 = handleJoinCall c2 a r2 u2 (handleJoinCall c1 a r1 u1 s)
          in filter (\<lambda>p. is_joined (snd p)) (frames_since s s2) = [(c1, UserJoined c2 r2 u2)] \<and>
             filter (\<lambda>p. is_left (snd p)) (frames_since s2 (handleLeaveCall c1 s2)) =
               [(c2, UserLeft c1 r1)] \<and>
             filter (\<lambda>p. is_left (snd p)) (frames_since s2 (handleLeaveCall c2 s2)) =
               [(c1, UserLeft c2 r2)])"
proof -
  define s1 where "s1 = handleJoinCall c1 a r1 u1 s"
  define s2 where "s2 = handleJoinCall c2 a r2 u2 s1"
  obtain k1 where k1: "map_of (connections s) c1 = Some k1" using assms(2) rtc_liveD by blast
  obtain k2 where k2: "map_of (connections s) c2 = Some k2" using assms(3) rtc_liveD by blast
  have room0: "room_of s a = []" using assms(4) by (simp add: room_of_def)
  note f1 = handleJoinCall_fields [OF k1, of a r1 u1, folded s1_def]
  have out1: "outbox s1 = outbox s"
    using f1(1) by (simp add: room0 set_add_def)
  have room1: "room_of s1 a = [c1]"
    using f1(2) by (simp add: room0 set_add_def)
  have k2': "map_of (connections s1) c2 = Some k2"
    using f1(3) k2 assms(1) by simp
  have k1': "map_of (connections s1) c1 =
      Some (k1\<lparr>conn_alertId := Some a, conn_role := r1, conn_userId := u1\<rparr>)"
    using f1(3) by simp
  have live1: "rtc_live s1 = rtc_live s"
    unfolding s1_def by (rule handleJoinCall_live [OF k1])
  have user1: "isUser s1 c1 = (r1 = User)"
    unfolding s1_def by (simp add: handleJoinCall_isUser [OF k1])
  note f2 = handleJoinCall_fields [OF k2', of a r2 u2, folded s2_def]
  have out2: "outbox s2 = outbox s @ [(c1, UserJoined c2 r2 u2)] @
      (if r2 = Agent \<and> r1 = User \<and> c1 \<noteq> [] then [(c1, AgentAvailable c2)] else [])"
    using f2(1) assms(1,2) by (simp add: room1 set_add_def live1 out1 user1)
  have room2: "room_of s2 a = [c1, c2]"
    using f2(2) assms(1) by (simp add: room1 set_add_def)
  have live2: "rtc_live s2 = rtc_live s"
    unfolding s2_def using handleJoinCall_live [OF k2'] live1 by simp
  have c1_2: "map_of (connections s2) c1 =
      Some (k1\<lparr>conn_alertId := Some a, conn_role := r1, conn_userId := u1\<rparr>)"
    using f2(3) k1' assms(1) by simp
  have c2_2: "map_of (connections s2) c2 =
      Some (k2\<lparr>conn_alertId := Some a, conn_role := r2, conn_userId := u2\<rparr>)"
    using f2(3) by simp
  have leave1: "outbox (handleLeaveCall c1 s2) = outbox s2 @ [(c2, UserLeft c1 r1)]"
    using handleLeaveCall_fields(1) [OF c1_2 _ assms(5)] assms(1,3)
    by (simp add: room2 live2)
  have leave2: "outbox (handleLeaveCall c2 s2) = outbox s2 @ [(c1, UserLeft c2 r2)]"
    using handleLeaveCall_fields(1) [OF c2_2 _ assms(5)] assms(1,2)
    by (simp add: room2 live2)
  have A: "filter (\<lambda>p. is_joined (snd p)) (frames_since s s2) = [(c1, UserJoined c2 r2 u2)]"
    using frames_since_append [OF out2] by simp
  have B: "filter (\<lambda>p. is_left (snd p)) (frames_since s2 (handleLeaveCall c1 s2)) =
      [(c2, UserLeft c1 r1)]"
    using frames_since_append [OF leave1] by simp
  have C: "filter (\<lambda>p. is_left (snd p)) (frames_since s2 (handleLeaveCall c2 s2)) =
      [(c1, UserLeft c2 r2)]"
    using frames_since_append [OF leave2] by simp
  show ?thesis using A B C unfolding s2_def s1_def Let_def by simp
qed

text \<open>The two connections of \<open>two_connected\<close> and the room \<open>A\<close>.\<close>

theorem two_party_join_leave_notifications_witness:
  "''c1'' \<noteq> ''c2'' \<and> rtc_live two_connected ''c1'' \<and> rtc_live two_connected ''c2'' \<and>
   map_of (activeRooms two_connected) ''A'' = None \<and> ''A'' \<noteq> [] \<and>
   filter (\<lambda>p. is_joined (snd p))
     (frames_since two_connected
        (handleJoinCall ''c2'' ''A'' User None (handleJoinCall ''c1'' ''A'' User None two_connected))) =
     [(''c1'', UserJoined ''c2'' User None)] \<and>
   filter (\<lambda>p. is_left (snd p))
     (frames_since
        (handleJoinCall ''c2'' ''A'' User None (handleJoinCall ''c1'' ''A'' User None two_connected))
        (handleLeaveCall ''c1''
           (handleJoinCall ''c2'' ''A'' User None
              (handleJoinCall ''c1'' ''A'' User None two_connected)))) =
     [(''c2'', UserLeft ''c1'' User)]"
proof -
  have h: "''c1'' \<noteq> ''c2''" "rtc_live two_connected ''c1''" "rtc_live two_connected ''c2''"
    "map_of (activeRooms two_connected) ''A'' = None" "''A'' \<noteq> []"
    by (simp_all add: two_connected_eq rtc_live_def)
  show ?thesis
    using two_party_join_leave_notifications [OF h, of User None User None, unfolded Let_def] h
    by blast
qed

subsection \<open>The frame for a waiting user\<close>

text \<open>
  An agent \<open>c2\<close> joins the room where the user \<open>c1\<close> waits. Both frames of the join go to the
  user; the \<^verbatim>\<open>agent-available\<close> frame names the agent. The agent gets no frame, and no
  frame names the user.
\<close>

theorem agent_available_goes_to_user:
  "frames_since user_waiting agent_joined =
     [(''c1'', UserJoined ''c2'' Agent None), (''c1'', AgentAvailable ''c2'')] \<and>
   frames_to ''c2'' (frames_since user_waiting agent_joined) = [] \<and>
   (''c2'', AgentAvailable ''c1'') \<notin> set (frames_since user_waiting agent_joined)"
  by (simp add: agent_joined_eq user_waiting_eq frames_since_def frames_to_def)

lemma find_append_Some: "find P xs = Some x \<Longrightarrow> find P (xs @ ys) = Some x"
  by (induction xs) (auto split: if_splits)

text \<open>
  Claim C6, as the code has it. The claim: the joining responder is sent an invite that names an
  initiator of the room. In the code the direction is the reverse (``notify the user that an
  agent is available''): when a registered connection \<open>c\<close> joins as \<^verbatim>\<open>agent\<close> and \<open>x\<close> is the
  first member of the room, other than \<open>c\<close>, whose role is \<^verbatim>\<open>user\<close>, and \<open>x\<close> is live (with a
  non-empty identifier), then exactly one \<^verbatim>\<open>agent-available\<close> frame is written during the
  join: it goes to \<open>x\<close> and its \<^verbatim>\<open>agentId\<close> is \<open>c\<close>. None goes to the joiner.
\<close>

theorem agent_join_notifies_first_user:
  assumes "map_of (connections s) c = Some k"
    and "find (\<lambda>i. i \<noteq> c \<and> isUser s i) (room_of s a) = Some x"
    and "x \<noteq> []" and "rtc_live s x"
  shows "filter (\<lambda>p. is_available (snd p)) (frames_since s (handleJoinCall c a Agent u s)) =
           [(x, AgentAvailable c)]"
proof -
  have fnd: "find (\<lambda>i. i \<noteq> c \<and> isUser s i) (set_add c (room_of s a)) = Some x"
    using assms(2) by (simp add: set_add_def find_append_Some)
  have flt: "filter (\<lambda>p. is_available (snd p)) (map (\<lambda>i. (i, UserJoined c Agent u)) xs) = []"
    for xs :: "string list"
    by (induction xs) auto
  have out: "outbox (handleJoinCall c a Agent u s) = outbox s @
     (map (\<lambda>i. (i, UserJoined c Agent u))
        (filter (\<lambda>i. i \<noteq> c \<and> rtc_live s i) (set_add c (room_of s a))) @
      [(x, AgentAvailable c)])"
    using handleJoinCall_fields(1) [OF assms(1), of a Agent u] assms(3,4) by (simp add: fnd)
  show ?thesis
    unfolding frames_since_append [OF out] by (simp add: flt)
qed

text \<open>The connection \<open>c2\<close> joins the room \<open>A\<close> of \<open>user_waiting\<close> as an agent.\<close>

theorem agent_join_notifies_first_user_witness:
  "map_of (connections user_waiting) ''c2'' =
     Some \<lparr>conn_id = ''c2'', conn_socketOpen = True, conn_role = User,
           conn_alertId = None, conn_userId = None, isConnected = True\<rparr> \<and>
   find (\<lambda>i. i \<noteq> ''c2'' \<and> isUser user_waiting i) (room_of user_waiting ''A'') = Some ''c1'' \<and>
   ''c1'' \<noteq> [] \<and> rtc_live user_waiting ''c1'' \<and>
   filter (\<lambda>p. is_available (snd p))
     (frames_since user_waiting (handleJoinCall ''c2'' ''A'' Agent None user_waiting)) =
     [(''c1'', AgentAvailable ''c2'')]"
proof -
  have h1: "map_of (connections user_waiting) ''c2'' =
     Some \<lparr>conn_id = ''c2'', conn_socketOpen = True, conn_role = User,
           conn_alertId = None, conn_userId = None, isConnected = True\<rparr>"
    by (simp add: user_waiting_eq)
  have h2: "find (\<lambda>i. i \<noteq> ''c2'' \<and> isUser user_waiting i) (room_of user_waiting ''A'') =
      Some ''c1''"
    by (simp add: user_waiting_eq room_of_def isUser_def)
  have h3: "''c1'' \<noteq> []" by simp
  have h4: "rtc_live user_waiting ''c1''" by (simp add: user_waiting_eq rtc_live_def)
  show ?thesis
    using agent_join_notifies_first_user [OF h1 h2 h3 h4, of None] h1 h2 h3 h4 by blast
qed

subsection \<open>Cleanup\<close>

text \<open>
  Claim C4 (the code departs from it). The claim: \<^verbatim>\<open>leave-call\<close> of a connection that is in
  no room, one that already left included, changes nothing and sends nothing. In
  \<open>user_left\<close> the user \<open>c1\<close> has left the room \<open>A\<close>, whose only member is now the agent
  \<open>c2\<close>. \<^verbatim>\<open>handleLeaveCall\<close> never clears \<^verbatim>\<open>connection.alertId\<close>, so its guard does not
  stop a second \<^verbatim>\<open>leave-call\<close> of \<open>c1\<close>: the agent is sent \<^verbatim>\<open>user-left\<close> again. The same
  happens when the connection closes after having left, which is what the client does when it
  ends a call.
\<close>

theorem repeated_leave_notifies_again:
  "room_of user_left ''A'' = [''c2''] \<and>
   outbox (handleSignalingMessage ''c1'' LeaveCall user_left) =
     outbox user_left @ [(''c2'', UserLeft ''c1'' User)] \<and>
   outbox (handleConnectionClose ''c1'' user_left) =
     outbox user_left @ [(''c2'', UserLeft ''c1'' User)]"
  by (simp add: user_left_eq room_of_def rtc_eval)

text \<open>
  Claim C3 (the code departs from it). The claim: every member of every room is a live
  connection, and a connection that joined the room \<open>A\<close> and then the room \<open>B\<close> leaves no
  membership behind when it disconnects. \<^verbatim>\<open>handleConnectionClose\<close> leaves only the room
  recorded last in \<^verbatim>\<open>connection.alertId\<close>: after the run below the connection \<open>c1\<close> has no
  entry, and the room \<open>A\<close> still exists, with \<open>c1\<close> as its member.
\<close>

theorem stale_member_after_disconnect:
  "activeRooms (run two_rooms_then_close initial) = [(''A'', [''c1''])] \<and>
   connections (run two_rooms_then_close initial) = [] \<and>
   ''c1'' \<in> set (room_of (run two_rooms_then_close initial) ''A'') \<and>
   map_of (connections (run two_rooms_then_close initial)) ''c1'' = None"
  by (simp add: two_rooms_then_close_def room_of_def rtc_eval)

end
